theory Spec2Isabelle
  imports Complex_Main "HOL-Library.Multiset"
begin

section \<open>JavaScript values and objects\<close>

text \<open>
  The requests of \<^verbatim>\<open>src/index.tsx\<close> are untyped objects (\<^verbatim>\<open>any\<close>) whose fields
  hold scalars: strings from the forms, ISO timestamps, the purchase value as a number,
  the invoice flag as a boolean. A string is a list of UTF-16 code units below 256, one
  \<^typ>\<open>char\<close> each, so the accented letters of the Portuguese labels are single
  characters (\<open>CHR 0xEA\<close> is e with circumflex). A number is exact: NaN, the two
  infinities, or a rational; rounding to the nearest double is not modelled.
\<close>

datatype jsnum = NaN | PInf | NInf | Num rat

datatype jsval = JUndefined | JNull | JBool bool | JNum jsnum | JStr string

text \<open>An object is a finite map from property names; reading a missing property gives
  \<^verbatim>\<open>undefined\<close>; \<^verbatim>\<open>{...a, ...b}\<close> is \<open>a ++ b\<close>.\<close>

type_synonym jsobj = "string \<rightharpoonup> jsval"

definition jsget :: "jsobj \<Rightarrow> string \<Rightarrow> jsval" where
  "jsget obj k = (case obj k of None \<Rightarrow> JUndefined | Some v \<Rightarrow> v)"

text \<open>JavaScript truthiness, as used by \<^verbatim>\<open>!x\<close>, \<^verbatim>\<open>x || y\<close> and \<^verbatim>\<open>if (x)\<close>.\<close>

fun truthy :: "jsval \<Rightarrow> bool" where
  "truthy JUndefined = False"
| "truthy JNull = False"
| "truthy (JBool b) = b"
| "truthy (JNum NaN) = False"
| "truthy (JNum (Num q)) = (q \<noteq> 0)"
| "truthy (JNum _) = True"
| "truthy (JStr s) = (s \<noteq> [])"

definition js_or :: "jsval \<Rightarrow> jsval \<Rightarrow> jsval" where
  "js_or a b = (if truthy a then a else b)"

text \<open>
  \<^verbatim>\<open>JSON.stringify\<close> followed by the store's parse: a property holding
  \<^verbatim>\<open>undefined\<close> is dropped, a number that is not finite is written as \<^verbatim>\<open>null\<close>.
\<close>

fun json_val :: "jsval \<Rightarrow> jsval option" where
  "json_val JUndefined = None"
| "json_val (JNum (Num q)) = Some (JNum (Num q))"
| "json_val (JNum _) = Some JNull"
| "json_val v = Some v"

definition json :: "jsobj \<Rightarrow> jsobj" where
  "json obj = (\<lambda>k. case obj k of None \<Rightarrow> None | Some v \<Rightarrow> json_val v)"

section \<open>The document store\<close>

text \<open>
  The remote document tree is outside the repository; it is modelled by its REST
  contract: the collection \<^verbatim>\<open>/compras\<close> maps generated keys to documents,
  \<^verbatim>\<open>POST\<close> adds a child under a key the server chooses, \<^verbatim>\<open>PATCH\<close> merges the
  given fields into the document at the key (creating it when it is missing), \<^verbatim>\<open>GET\<close>
  returns the collection. The collection is an association list in key order of
  \<^verbatim>\<open>Object.keys\<close>. Every call carries a flag \<open>ok\<close>: whether the request reached the
  store and was answered with a success status (\<^verbatim>\<open>response.ok\<close>).
\<close>

type_synonym rtdb = "(string \<times> jsobj) list"

definition rtdb_doc :: "rtdb \<Rightarrow> string \<Rightarrow> jsobj" where
  "rtdb_doc db k = (case map_of db k of None \<Rightarrow> Map.empty | Some d \<Rightarrow> d)"

fun rtdb_patch :: "string \<Rightarrow> jsobj \<Rightarrow> rtdb \<Rightarrow> rtdb" where
  "rtdb_patch k p [] = [(k, p)]"
| "rtdb_patch k p ((k', d) # db) =
     (if k' = k then (k', d ++ p) # db else (k', d) # rtdb_patch k p db)"

definition rtdb_post :: "string \<Rightarrow> jsobj \<Rightarrow> rtdb \<Rightarrow> rtdb" where
  "rtdb_post newKey d db = db @ [(newKey, d)]"

text \<open>The errors the services throw, one constructor for each \<^verbatim>\<open>throw new Error(...)\<close>.\<close>

datatype error =
    FalhaEnviarSolicitacao     \<comment> \<open>addPurchaseRequest: response not ok\<close>
  | FalhaBuscarSolicitacoes    \<comment> \<open>getPurchaseRequests: response not ok\<close>
  | FalhaAtualizarStatus       \<comment> \<open>updatePurchaseRequestStatus: response not ok\<close>
  | FalhaConfirmarCompra       \<comment> \<open>confirmPurchase: response not ok\<close>
  | NenhumaPaginaProcessada    \<comment> \<open>uploadAndLinkInvoice: no page\<close>
  | FalhaSalvarFirestore       \<comment> \<open>uploadAndLinkInvoice: first write not ok\<close>
  | FalhaVincularRealtimeDB    \<comment> \<open>uploadAndLinkInvoice: second write not ok\<close>
  | NotaNaoEncontrada          \<comment> \<open>getInvoice: response not ok\<close>
  | FormatoInvalido            \<comment> \<open>getInvoice: no mimeType\<close>
  | NenhumaPaginaEncontrada    \<comment> \<open>getInvoice: no page and no legacy data\<close>

section \<open>databaseService: requests\<close>

definition addPurchaseRequest :: "bool \<Rightarrow> string \<Rightarrow> jsobj \<Rightarrow> rtdb \<Rightarrow> error + (string \<times> rtdb)" where
  "addPurchaseRequest ok newKey requestData db =
     (if \<not> ok then Inl FalhaEnviarSolicitacao
      else Inr (newKey, rtdb_post newKey (json requestData) db))"

definition getPurchaseRequests :: "bool \<Rightarrow> rtdb \<Rightarrow> error + jsobj list" where
  "getPurchaseRequests ok db =
     (if \<not> ok then Inl FalhaBuscarSolicitacoes
      else Inr (map (\<lambda>(key, d). [''id'' \<mapsto> JStr key] ++ d) db))"

datatype decision = Aprovado | Reprovado

fun decision_str :: "decision \<Rightarrow> string" where
  "decision_str Aprovado = ''aprovado''"
| "decision_str Reprovado = ''reprovado''"

text \<open>\<^verbatim>\<open>justification || ''\<close> for an optional string.\<close>

fun or_empty :: "string option \<Rightarrow> string" where
  "or_empty None = []"
| "or_empty (Some s) = s"

definition status_payload :: "decision \<Rightarrow> string option \<Rightarrow> string \<Rightarrow> jsobj" where
  "status_payload status justification now =
     (let payload = [''status'' \<mapsto> JStr (decision_str status)] in
      case status of
        Aprovado \<Rightarrow> payload(''approvedAt'' \<mapsto> JStr now)
      | Reprovado \<Rightarrow>
          payload(''rejectedAt'' \<mapsto> JStr now,
                  ''justification'' \<mapsto> JStr (or_empty justification)))"

text \<open>\<open>now\<close> is \<^verbatim>\<open>new Date().toISOString()\<close> at the call. Neither function reads the
  stored request, and neither takes the acting user.\<close>

definition updatePurchaseRequestStatus ::
  "bool \<Rightarrow> string \<Rightarrow> decision \<Rightarrow> string option \<Rightarrow> string \<Rightarrow> rtdb \<Rightarrow> error + rtdb" where
  "updatePurchaseRequestStatus ok ident status justification now db =
     (let payload = status_payload status justification now in
      if \<not> ok then Inl FalhaAtualizarStatus
      else Inr (rtdb_patch ident (json payload) db))"

definition purchase_payload :: "jsobj \<Rightarrow> string \<Rightarrow> jsobj" where
  "purchase_payload purchaseData now =
     [''status'' \<mapsto> JStr ''comprado'', ''purchasedAt'' \<mapsto> JStr now] ++ purchaseData"

definition confirmPurchase :: "bool \<Rightarrow> string \<Rightarrow> jsobj \<Rightarrow> string \<Rightarrow> rtdb \<Rightarrow> error + rtdb" where
  "confirmPurchase ok ident purchaseData now db =
     (let payload = purchase_payload purchaseData now in
      if \<not> ok then Inl FalhaConfirmarCompra
      else Inr (rtdb_patch ident (json payload) db))"

section \<open>The views that issue the transitions\<close>

text \<open>
  \<^verbatim>\<open>AprovarComprasPage\<close> and \<^verbatim>\<open>SetorComprasPage\<close> hold a local copy of the listing and
  show one tab of it; the buttons of a row are the only callers of the two operations.
  The sort by creation date, which only reorders the rows, is left out.
\<close>

datatype tab = Pendentes | Historico

definition has_status :: "string \<Rightarrow> jsobj \<Rightarrow> bool" where
  "has_status s req = (jsget req ''status'' = JStr s)"

definition aprovar_filteredRequests :: "tab \<Rightarrow> jsobj list \<Rightarrow> jsobj list" where
  "aprovar_filteredRequests activeTab requests =
     filter (\<lambda>req. case activeTab of
                      Pendentes \<Rightarrow> has_status ''pendente'' req
                    | Historico \<Rightarrow> \<not> has_status ''pendente'' req) requests"

datatype action = VerDetalhes | Aprovar | Reprovar | Comprar | EnviarNotaFiscal

definition aprovar_row_actions :: "jsobj \<Rightarrow> action list" where
  "aprovar_row_actions req =
     VerDetalhes # (if has_status ''pendente'' req then [Aprovar, Reprovar] else [])"

definition setor_relevantRequests :: "jsobj list \<Rightarrow> jsobj list" where
  "setor_relevantRequests data =
     filter (\<lambda>req. has_status ''aprovado'' req \<or> has_status ''comprado'' req) data"

definition setor_filteredRequests :: "tab \<Rightarrow> jsobj list \<Rightarrow> jsobj list" where
  "setor_filteredRequests activeTab requests =
     filter (\<lambda>req. case activeTab of
                      Pendentes \<Rightarrow> has_status ''aprovado'' req
                    | Historico \<Rightarrow> has_status ''comprado'' req) requests"

definition setor_row_actions :: "tab \<Rightarrow> action list" where
  "setor_row_actions activeTab =
     VerDetalhes # (if activeTab = Historico then [EnviarNotaFiscal] else [])
       @ (if activeTab = Pendentes then [Comprar] else [])"

text \<open>
  The fields \<^verbatim>\<open>PurchaseConfirmationModal\<close> collects: its state starts from the keys of
  the request's category and its inputs carry these names only.
\<close>

definition fulfillment_fields :: "string set" where
  "fulfillment_fields =
     {''valorProduto'', ''linkCotacao1'', ''linkCotacao2'', ''linkCotacao3'',
      ''previsaoChegada'', ''valorServico'', ''dataRealizacao''}"

text \<open>The fields the transitions themselves write, and the three timestamps among them.\<close>

definition engine_fields :: "string set" where
  "engine_fields = {''status'', ''approvedAt'', ''rejectedAt'', ''purchasedAt''}"

definition timestamps :: "string set" where
  "timestamps = {''approvedAt'', ''rejectedAt'', ''purchasedAt''}"

subsection \<open>Navigation by role\<close>

datatype role = Admin | User | Comprador | Aprovador

text \<open>\<^verbatim>\<open>user.role || 'user'\<close> for the optional role of a user.\<close>

fun role_or_user :: "role option \<Rightarrow> role" where
  "role_or_user None = User"
| "role_or_user (Some r) = r"

definition allNavItems :: "string list" where
  "allNavItems = [''formulario'', ''setor_compras'', ''aprovar_compras'', ''dashboards'']"

fun rolePermissions :: "role \<Rightarrow> string list option" where
  "rolePermissions Comprador = Some [''formulario'', ''setor_compras'']"
| "rolePermissions Aprovador = Some [''formulario'', ''aprovar_compras'']"
| "rolePermissions User = Some [''formulario'']"
| "rolePermissions Admin = None"

definition visibleNavItems :: "role option \<Rightarrow> string list" where
  "visibleNavItems user_role =
     (let role = role_or_user user_role in
      filter (\<lambda>item. if role = Admin then True
                     else (case rolePermissions role of
                             Some items \<Rightarrow> item \<in> set items
                           | None \<Rightarrow> False)) allNavItems)"

text \<open>The settings menu adds the link to the admin view for an admin only.\<close>

definition adminLinkVisible :: "role option \<Rightarrow> bool" where
  "adminLinkVisible user_role = (user_role = Some Admin)"

datatype page = PurchaseForm | SetorComprasPage | AprovarComprasPage | DashboardsPage | AdminPage

definition renderContent :: "string \<Rightarrow> page" where
  "renderContent activeView =
     (if activeView = ''formulario'' then PurchaseForm
      else if activeView = ''setor_compras'' then SetorComprasPage
      else if activeView = ''aprovar_compras'' then AprovarComprasPage
      else if activeView = ''dashboards'' then DashboardsPage
      else if activeView = ''admin'' then AdminPage
      else PurchaseForm)"

text \<open>
  The active view starts at the first permitted view of the role and changes only by a
  click on a visible navigation item or on the admin link.
\<close>

definition defaultView :: "role option \<Rightarrow> string" where
  "defaultView user_role =
     (case role_or_user user_role of
        Comprador \<Rightarrow> ''formulario'' | Aprovador \<Rightarrow> ''formulario''
      | User \<Rightarrow> ''formulario'' | Admin \<Rightarrow> ''formulario'')"

definition reachableViews :: "role option \<Rightarrow> string set" where
  "reachableViews user_role =
     insert (defaultView user_role) (set (visibleNavItems user_role))
       \<union> (if adminLinkVisible user_role then {''admin''} else {})"

section \<open>The submission form\<close>

record formData =
  nome :: string
  email :: string
  unidade :: string
  prazo :: string
  prazoDataHora :: string
  urgencia :: string
  tipo :: string
  descricaoServico :: string
  querIndicar :: string
  nomeIndicado :: string
  nomeProduto :: string
  quantidadeProduto :: string
  querLink :: string
  linkProduto :: string

definition initialFormData :: formData where
  "initialFormData =
     \<lparr>nome = [], email = [], unidade = [], prazo = ''nao'', prazoDataHora = [],
      urgencia = [], tipo = [], descricaoServico = [], querIndicar = ''nao'',
      nomeIndicado = [], nomeProduto = [], quantidadeProduto = [], querLink = ''nao'',
      linkProduto = []\<rparr>"

text \<open>The labels pushed to \<^verbatim>\<open>errors\<close>; two of them have accented letters.\<close>

definition lbl_urgencia :: string where
  "lbl_urgencia = ''Grau de urg'' @ CHR 0xEA # ''ncia''"

definition lbl_descricao :: string where
  "lbl_descricao = ''Descri'' @ CHR 0xE7 # CHR 0xE3 # ''o do servi'' @ CHR 0xE7 # ''o''"

definition validation_errors :: "formData \<Rightarrow> string list" where
  "validation_errors formData =
     (if unidade formData = [] then [''Unidade''] else [])
     @ (if urgencia formData = [] then [lbl_urgencia] else [])
     @ (if tipo formData = [] then [''Tipo''] else [])
     @ (if prazo formData = ''sim'' \<and> prazoDataHora formData = []
        then [''Data e Hora do Prazo''] else [])
     @ (if tipo formData = ''servico''
        then (if descricaoServico formData = [] then [lbl_descricao] else [])
           @ (if querIndicar formData = ''sim'' \<and> nomeIndicado formData = []
              then [''Nome de quem quer indicar''] else [])
        else [])
     @ (if tipo formData = ''produto''
        then (if nomeProduto formData = [] then [''Produto (nome)''] else [])
           @ (if quantidadeProduto formData = [] then [''Quantidade''] else [])
           @ (if querLink formData = ''sim'' \<and> linkProduto formData = []
              then [''Link do produto''] else [])
        else [])"

text \<open>\<^verbatim>\<open>Array.prototype.join\<close>.\<close>

fun join :: "string \<Rightarrow> string list \<Rightarrow> string" where
  "join sep [] = []"
| "join sep [x] = x"
| "join sep (x # y # ys) = x @ sep @ join sep (y # ys)"

definition validation_message :: "string list \<Rightarrow> string" where
  "validation_message errors =
     ''Por favor, preencha os campos obrigat'' @ CHR 0xF3 # ''rios: ''
       @ join '', '' errors @ ''.''"

definition form_object :: "formData \<Rightarrow> jsobj" where
  "form_object formData =
     [''nome'' \<mapsto> JStr (nome formData), ''email'' \<mapsto> JStr (email formData),
      ''unidade'' \<mapsto> JStr (unidade formData), ''prazo'' \<mapsto> JStr (prazo formData),
      ''prazoDataHora'' \<mapsto> JStr (prazoDataHora formData),
      ''urgencia'' \<mapsto> JStr (urgencia formData), ''tipo'' \<mapsto> JStr (tipo formData),
      ''descricaoServico'' \<mapsto> JStr (descricaoServico formData),
      ''querIndicar'' \<mapsto> JStr (querIndicar formData),
      ''nomeIndicado'' \<mapsto> JStr (nomeIndicado formData),
      ''nomeProduto'' \<mapsto> JStr (nomeProduto formData),
      ''quantidadeProduto'' \<mapsto> JStr (quantidadeProduto formData),
      ''querLink'' \<mapsto> JStr (querLink formData),
      ''linkProduto'' \<mapsto> JStr (linkProduto formData)]"

definition requestData :: "formData \<Rightarrow> string \<Rightarrow> string \<Rightarrow> jsobj" where
  "requestData formData uid now =
     form_object formData
       ++ [''requesterUid'' \<mapsto> JStr uid, ''createdAt'' \<mapsto> JStr now,
           ''status'' \<mapsto> JStr ''pendente'']"

text \<open>
  What \<^verbatim>\<open>handleSubmit\<close> leaves in \<^verbatim>\<open>submitStatus\<close>: the validation message, the message
  of the error the service threw, or success with the key the store assigned. The two
  e-mail notifications, sent after the write and never awaited, are left out.
\<close>

datatype submitStatus = ValidationFailed string | SubmitFailed error | Submitted string

definition handleSubmit ::
  "formData \<Rightarrow> string \<Rightarrow> string \<Rightarrow> bool \<Rightarrow> string \<Rightarrow> rtdb \<Rightarrow> submitStatus \<times> rtdb" where
  "handleSubmit formData uid now ok newKey db =
     (let errors = validation_errors formData in
      if errors \<noteq> [] then (ValidationFailed (validation_message errors), db)
      else
        (case addPurchaseRequest ok newKey (requestData formData uid now) db of
           Inl e \<Rightarrow> (SubmitFailed e, db)
         | Inr (newRequestId, db') \<Rightarrow> (Submitted newRequestId, db')))"

text \<open>
  The required fields as the specification lists them: unit, urgency and category; the
  deadline when one is asked for; for a service its description, and the referral name
  when a referral is asked for; for a product its name and quantity, and the link when
  a link is asked for.
\<close>

definition valid_draft :: "formData \<Rightarrow> bool" where
  "valid_draft d =
     (unidade d \<noteq> [] \<and> urgencia d \<noteq> [] \<and> tipo d \<noteq> [] \<and>
      \<not> (prazo d = ''sim'' \<and> prazoDataHora d = []) \<and>
      \<not> (tipo d = ''servico'' \<and> descricaoServico d = []) \<and>
      \<not> (tipo d = ''servico'' \<and> querIndicar d = ''sim'' \<and> nomeIndicado d = []) \<and>
      \<not> (tipo d = ''produto'' \<and> nomeProduto d = []) \<and>
      \<not> (tipo d = ''produto'' \<and> quantidadeProduto d = []) \<and>
      \<not> (tipo d = ''produto'' \<and> querLink d = ''sim'' \<and> linkProduto d = []))"

section \<open>The sidebar counts\<close>

definition derivedCounts :: "jsobj list \<Rightarrow> nat \<times> nat" where
  "derivedCounts requests =
     (let approvals = length (filter (has_status ''pendente'') requests);
          purchases = length (filter (has_status ''aprovado'') requests)
      in (approvals, purchases))"

text \<open>\<^verbatim>\<open>fetchCounts\<close>: a failed fetch is logged and the counts keep their values.\<close>

definition fetchCounts :: "bool \<Rightarrow> rtdb \<Rightarrow> nat \<times> nat \<Rightarrow> nat \<times> nat" where
  "fetchCounts ok db counts =
     (case getPurchaseRequests ok db of
        Inl e \<Rightarrow> counts
      | Inr requests \<Rightarrow> derivedCounts requests)"

text \<open>The count of the specification, written from its words: the number of requests
  of the collection whose status is the given one, counted one request at a time.\<close>

fun count_with_status :: "string \<Rightarrow> jsobj list \<Rightarrow> nat" where
  "count_with_status s [] = 0"
| "count_with_status s (req # requests) =
     (if jsget req ''status'' = JStr s then 1 else 0) + count_with_status s requests"

text \<open>The fixed collection of the specification, as the multiset of its statuses: three
  \<^verbatim>\<open>pendente\<close>, two \<^verbatim>\<open>aprovado\<close>, one \<^verbatim>\<open>reprovado\<close>, four \<^verbatim>\<open>comprado\<close>.\<close>

definition fixed_statuses :: "jsval multiset" where
  "fixed_statuses = mset (replicate 3 (JStr ''pendente'') @ replicate 2 (JStr ''aprovado'')
       @ replicate 1 (JStr ''reprovado'') @ replicate 4 (JStr ''comprado''))"

section \<open>Currency values\<close>

text \<open>
  \<^verbatim>\<open>value.replace(/[^\d,.-]+/g, '').replace(/\./g, '').replace(',', '.')\<close>: keep digits,
  commas, dots and minus signs; drop every dot; turn the first comma into a dot.
\<close>

definition is_digit :: "char \<Rightarrow> bool" where
  "is_digit c = (c \<in> set ''0123456789'')"

definition strip_non_numeric :: "string \<Rightarrow> string" where
  "strip_non_numeric s = filter (\<lambda>c. is_digit c \<or> c \<in> set '',.-'') s"

definition remove_dots :: "string \<Rightarrow> string" where
  "remove_dots s = filter (\<lambda>c. c \<noteq> CHR ''.'') s"

fun replace_first_comma :: "string \<Rightarrow> string" where
  "replace_first_comma [] = []"
| "replace_first_comma (c # cs) =
     (if c = CHR '','' then CHR ''.'' # cs else c # replace_first_comma cs)"

definition cleanedValue :: "string \<Rightarrow> string" where
  "cleanedValue s = replace_first_comma (remove_dots (strip_non_numeric s))"

text \<open>
  \<^verbatim>\<open>parseFloat\<close>, a builtin: skip leading white space, read an optional sign, then
  \<^verbatim>\<open>Infinity\<close> or the longest decimal literal (digits, an optional fraction, an optional
  exponent), ignoring what follows; NaN when no digit is found. The value is the exact
  decimal.
\<close>

definition is_space :: "char \<Rightarrow> bool" where
  "is_space c = (c \<in> {CHR 0x09, CHR 0x0A, CHR 0x0B, CHR 0x0C, CHR 0x0D, CHR 0x20, CHR 0xA0})"

definition digit_val :: "char \<Rightarrow> nat" where
  "digit_val c = of_char c - 48"

definition decimal :: "string \<Rightarrow> nat" where
  "decimal ds = foldl (\<lambda>a c. 10 * a + digit_val c) 0 ds"

fun read_sign :: "string \<Rightarrow> bool \<times> string" where
  "read_sign (c # cs) =
     (if c = CHR ''-'' then (True, cs) else if c = CHR ''+'' then (False, cs)
      else (False, c # cs))"
| "read_sign [] = (False, [])"

fun read_exponent :: "string \<Rightarrow> int" where
  "read_exponent (c # cs) =
     (if c = CHR ''e'' \<or> c = CHR ''E''
      then (let (neg, r) = read_sign cs; ds = takeWhile is_digit r in
            if ds = [] then 0
            else if neg then - int (decimal ds) else int (decimal ds))
      else 0)"
| "read_exponent [] = 0"

definition scale10 :: "rat \<Rightarrow> int \<Rightarrow> rat" where
  "scale10 m e = (if 0 \<le> e then m * 10 ^ nat e else m / 10 ^ nat (- e))"

definition parseFloat :: "string \<Rightarrow> jsnum" where
  "parseFloat s =
     (let (neg, r) = read_sign (dropWhile is_space s) in
      if take 8 r = ''Infinity'' then (if neg then NInf else PInf)
      else
        (let ip = takeWhile is_digit r;
             r1 = dropWhile is_digit r;
             (fp, r2) = (case r1 of
                           c # cs \<Rightarrow> if c = CHR ''.''
                                     then (takeWhile is_digit cs, dropWhile is_digit cs)
                                     else ([], r1)
                         | [] \<Rightarrow> ([], r1))
         in if ip = [] \<and> fp = [] then NaN
            else
              (let m = of_nat (decimal ip) + of_nat (decimal fp) / 10 ^ length fp;
                   v = scale10 m (read_exponent r2)
               in Num (if neg then - v else v))))"

definition nao_informado :: string where
  "nao_informado = ''n'' @ CHR 0xE3 # ''o informado''"

definition valor_invalido :: string where
  "valor_invalido = ''Valor inv'' @ CHR 0xC3 # CHR 0xA1 # ''lido''"

fun js_isNaN :: "jsval \<Rightarrow> bool" where
  "js_isNaN (JNum NaN) = True"
| "js_isNaN v = False"

text \<open>
  \<^verbatim>\<open>formatCurrency\<close>. The final \<^verbatim>\<open>Intl.NumberFormat\<close> call is the parameter \<open>fmt\<close>.
  The argument is a number, a string, \<^verbatim>\<open>undefined\<close> or \<^verbatim>\<open>null\<close>.
\<close>

definition formatCurrency :: "(jsval \<Rightarrow> string) \<Rightarrow> jsval \<Rightarrow> string" where
  "formatCurrency fmt v =
     (if v = JNull \<or> v = JUndefined \<or> v = JStr [] then nao_informado
      else
        (let numberValue = (case v of
                              JStr s \<Rightarrow> JNum (parseFloat (cleanedValue s))
                            | _ \<Rightarrow> v)
         in if js_isNaN numberValue then valor_invalido else fmt numberValue))"

subsection \<open>The dashboard totals\<close>

fun js_add :: "jsnum \<Rightarrow> jsnum \<Rightarrow> jsnum" where
  "js_add (Num a) (Num b) = Num (a + b)"
| "js_add NaN _ = NaN"
| "js_add _ NaN = NaN"
| "js_add PInf NInf = NaN"
| "js_add NInf PInf = NaN"
| "js_add PInf _ = PInf"
| "js_add _ PInf = PInf"
| "js_add NInf _ = NInf"
| "js_add _ NInf = NInf"

text \<open>\<^verbatim>\<open>String(value)\<close>; the text of a number is the parameter \<open>nts\<close>.\<close>

fun js_String :: "(jsnum \<Rightarrow> string) \<Rightarrow> jsval \<Rightarrow> string" where
  "js_String nts (JStr s) = s"
| "js_String nts (JNum n) = nts n"
| "js_String nts (JBool b) = (if b then ''true'' else ''false'')"
| "js_String nts JNull = ''null''"
| "js_String nts JUndefined = ''undefined''"

record stats =
  spendingByUnit :: "string \<rightharpoonup> jsnum"
  unassignedSpending :: jsnum
  totalSpent :: jsnum
  completedPurchases :: nat
  rejectedRequests :: nat

definition initial_stats :: stats where
  "initial_stats =
     \<lparr>spendingByUnit =
        [''Unidade 1'' \<mapsto> Num 0, ''Unidade 2'' \<mapsto> Num 0, ''Unidade 3'' \<mapsto> Num 0,
         ''Unidade 4'' \<mapsto> Num 0, ''Unidade 5'' \<mapsto> Num 0, ''Unidade 6'' \<mapsto> Num 0],
      unassignedSpending = Num 0, totalSpent = Num 0, completedPurchases = 0,
      rejectedRequests = 0\<rparr>"

text \<open>The spend a purchased request adds: the number parsed from its value, or nothing
  when the value is falsy or does not parse.\<close>

definition spend_of :: "(jsnum \<Rightarrow> string) \<Rightarrow> jsobj \<Rightarrow> jsnum option" where
  "spend_of nts req =
     (let v = js_or (jsget req ''valorProduto'') (jsget req ''valorServico'') in
      if truthy v then
        (let numericValue = parseFloat (cleanedValue (js_String nts v)) in
         if numericValue \<noteq> NaN then Some numericValue else None)
      else None)"

text \<open>The body of the \<^verbatim>\<open>forEach\<close> of \<^verbatim>\<open>fetchAndCalculateStats\<close>.\<close>

definition stats_step :: "(jsnum \<Rightarrow> string) \<Rightarrow> jsobj \<Rightarrow> stats \<Rightarrow> stats" where
  "stats_step nts req acc =
     (let acc1 =
        (if has_status ''comprado'' req then
           (let acc' = acc\<lparr>completedPurchases := completedPurchases acc + 1\<rparr> in
            case spend_of nts req of
              None \<Rightarrow> acc'
            | Some numericValue \<Rightarrow>
                (let acc'' = acc'\<lparr>totalSpent := js_add (totalSpent acc') numericValue\<rparr>;
                     unitName = jsget req ''unidade'';
                     key = js_String nts unitName
                 in if truthy unitName \<and> key \<in> dom (spendingByUnit acc'')
                    then acc''\<lparr>spendingByUnit := (spendingByUnit acc'')
                           (key \<mapsto> js_add (the (spendingByUnit acc'' key)) numericValue)\<rparr>
                    else acc''\<lparr>unassignedSpending :=
                           js_add (unassignedSpending acc'') numericValue\<rparr>))
         else acc)
      in if has_status ''reprovado'' req
         then acc1\<lparr>rejectedRequests := rejectedRequests acc1 + 1\<rparr> else acc1)"

definition calculateStats :: "(jsnum \<Rightarrow> string) \<Rightarrow> jsobj list \<Rightarrow> stats" where
  "calculateStats nts data = foldl (\<lambda>acc req. stats_step nts req acc) initial_stats data"

text \<open>A value counts as absent when it is the empty string, \<^verbatim>\<open>null\<close> or \<^verbatim>\<open>undefined\<close>.\<close>

definition absent :: "jsval \<Rightarrow> bool" where
  "absent v = (v = JStr [] \<or> v = JNull \<or> v = JUndefined)"

text \<open>The three amounts of the totals, and what one round of the loop does to them.\<close>

definition money :: "stats \<Rightarrow> (string \<rightharpoonup> jsnum) \<times> jsnum \<times> jsnum" where
  "money acc = (spendingByUnit acc, unassignedSpending acc, totalSpent acc)"

definition money_next ::
  "(jsnum \<Rightarrow> string) \<Rightarrow> jsobj \<Rightarrow> (string \<rightharpoonup> jsnum) \<times> jsnum \<times> jsnum
     \<Rightarrow> (string \<rightharpoonup> jsnum) \<times> jsnum \<times> jsnum" where
  "money_next nts req m =
     (case m of (byUnit, unassigned, spent) \<Rightarrow>
        if has_status ''comprado'' req then
          (case spend_of nts req of
             None \<Rightarrow> m
           | Some n \<Rightarrow>
               (let key = js_String nts (jsget req ''unidade'') in
                if truthy (jsget req ''unidade'') \<and> key \<in> dom byUnit
                then (byUnit(key \<mapsto> js_add (the (byUnit key)) n), unassigned, js_add spent n)
                else (byUnit, js_add unassigned n, js_add spent n)))
        else m)"

section \<open>Invoices\<close>

text \<open>
  The attribute document store, outside the repository, holds one document of typed
  fields for each request identifier. A value is a string, a timestamp, an array, or of
  another kind (\<open>OtherValue\<close>: it has neither \<^verbatim>\<open>stringValue\<close> nor \<^verbatim>\<open>arrayValue\<close>).
  A write sends the whole set of fields; \<open>keep\<close> says whether the store keeps the fields
  of an existing document that the write does not name.
\<close>

datatype fsval = StringValue string | TimestampValue string | ArrayValue "fsval list" | OtherValue

type_synonym fsdoc = "string \<rightharpoonup> fsval"

type_synonym firestore = "string \<rightharpoonup> fsdoc"

definition fs_patch :: "bool \<Rightarrow> string \<Rightarrow> fsdoc \<Rightarrow> firestore \<Rightarrow> firestore" where
  "fs_patch keep ident flds fs =
     fs(ident \<mapsto> (if keep then (case fs ident of None \<Rightarrow> Map.empty | Some d \<Rightarrow> d) ++ flds
                    else flds))"

record invoice =
  pages :: "string list"
  mimeType :: string
  originalName :: "string option"

definition invoice_fields :: "invoice \<Rightarrow> string \<Rightarrow> fsdoc" where
  "invoice_fields nf now =
     [''mimeType'' \<mapsto> StringValue (mimeType nf),
      ''pages'' \<mapsto> ArrayValue (map StringValue (pages nf))]
     ++ (case originalName nf of
           None \<Rightarrow> Map.empty
         | Some n \<Rightarrow> if n \<noteq> [] then [''originalName'' \<mapsto> StringValue n] else Map.empty)
     ++ [''updatedAt'' \<mapsto> TimestampValue now]"

text \<open>
  \<^verbatim>\<open>uploadAndLinkInvoice\<close> writes to two stores, so it returns both with the error, if
  any: \<open>ok1\<close> and \<open>ok2\<close> are the answers to the first and to the second write.
\<close>

definition uploadAndLinkInvoice ::
  "bool \<Rightarrow> bool \<Rightarrow> bool \<Rightarrow> string \<Rightarrow> invoice \<Rightarrow> string \<Rightarrow> firestore \<times> rtdb
     \<Rightarrow> error option \<times> firestore \<times> rtdb" where
  "uploadAndLinkInvoice ok1 ok2 keep ident nf now st =
     (case st of (fs, db) \<Rightarrow>
        if pages nf = [] then (Some NenhumaPaginaProcessada, fs, db)
        else if \<not> ok1 then (Some FalhaSalvarFirestore, fs, db)
        else
          (let fs' = fs_patch keep ident (invoice_fields nf now) fs in
           if \<not> ok2 then (Some FalhaVincularRealtimeDB, fs', db)
           else (None, fs',
                 rtdb_patch ident
                   (json [''hasInvoice'' \<mapsto> JBool True,
                          ''invoicePagesCount'' \<mapsto> JNum (Num (of_nat (length (pages nf))))])
                   db)))"

text \<open>\<^verbatim>\<open>x?.stringValue\<close> when it is truthy: a string that is not empty.\<close>

fun stringValue :: "fsval option \<Rightarrow> string option" where
  "stringValue (Some (StringValue s)) = (if s \<noteq> [] then Some s else None)"
| "stringValue _ = None"

text \<open>\<^verbatim>\<open>fields.pages?.arrayValue?.values?.map(v => v?.stringValue).filter(Boolean)\<close>; a
  missing array gives no page, as the empty one does.\<close>

fun pageValues :: "fsval option \<Rightarrow> string list" where
  "pageValues (Some (ArrayValue vs)) = List.map_filter (\<lambda>v. stringValue (Some v)) vs"
| "pageValues _ = []"

text \<open>\<^verbatim>\<open>getInvoice\<close> returns the pages and the MIME type. The response is not ok when the
  request fails or the document does not exist.\<close>

definition getInvoice :: "bool \<Rightarrow> string \<Rightarrow> firestore \<Rightarrow> error + (string list \<times> string)" where
  "getInvoice ok ident fs =
     (case (if ok then fs ident else None) of
        None \<Rightarrow> Inl NotaNaoEncontrada
      | Some flds \<Rightarrow>
          (case stringValue (flds ''mimeType'') of
             None \<Rightarrow> Inl FormatoInvalido
           | Some mt \<Rightarrow>
               (let pvs = pageValues (flds ''pages'') in
                if pvs \<noteq> [] then Inr (pvs, mt)
                else (case stringValue (flds ''invoiceData'') of
                        Some d \<Rightarrow> Inr ([d], mt)
                      | None \<Rightarrow> Inl NenhumaPaginaEncontrada))))"

section \<open>Concrete stores and inputs\<close>

definition db_aprovado :: rtdb where
  "db_aprovado =
     [(''r1'', [''status'' \<mapsto> JStr ''aprovado'',
               ''approvedAt'' \<mapsto> JStr ''2024-05-01T10:00:00.000Z''])]"

definition db_pendente :: rtdb where
  "db_pendente = [(''r1'', [''status'' \<mapsto> JStr ''pendente'', ''nome'' \<mapsto> JStr ''Ana''])]"

definition pd_servico :: jsobj where
  "pd_servico =
     [''valorServico'' \<mapsto> JNum (Num 150), ''dataRealizacao'' \<mapsto> JStr ''2024-07-01'']"

definition pd_override :: jsobj where
  "pd_override = [''valorServico'' \<mapsto> JNum (Num 150), ''status'' \<mapsto> JStr ''pendente'']"

definition req_of :: "string \<Rightarrow> jsobj" where
  "req_of s = [''status'' \<mapsto> JStr s]"

definition fixed_requests :: "jsobj list" where
  "fixed_requests =
     [req_of ''comprado'', req_of ''pendente'', req_of ''aprovado'', req_of ''comprado'',
      req_of ''reprovado'', req_of ''pendente'', req_of ''comprado'', req_of ''aprovado'',
      req_of ''pendente'', req_of ''comprado'']"

definition req_brl :: jsobj where
  "req_brl = [''status'' \<mapsto> JStr ''comprado'', ''unidade'' \<mapsto> JStr ''Unidade 1'',
              ''valorProduto'' \<mapsto> JStr ''R$ 1.234,56'']"

definition req_blank :: jsobj where
  "req_blank = [''status'' \<mapsto> JStr ''comprado'', ''unidade'' \<mapsto> JStr ''Unidade 1'',
                ''valorProduto'' \<mapsto> JStr []]"

definition req_text :: jsobj where
  "req_text = [''status'' \<mapsto> JStr ''comprado'', ''unidade'' \<mapsto> JStr ''Unidade 1'',
               ''valorServico'' \<mapsto> JStr ''a combinar'']"

definition no_text :: "jsnum \<Rightarrow> string" where
  "no_text n = []"

definition hello_invoice :: "string option \<Rightarrow> invoice" where
  "hello_invoice n = \<lparr>pages = [''aGVsbG8=''], mimeType = ''image/jpeg'', originalName = n\<rparr>"

definition two_pages :: invoice where
  "two_pages = \<lparr>pages = [''aGVsbG8='', ''d29ybGQ=''], mimeType = ''image/png'',
                 originalName = Some ''nota.pdf''\<rparr>"

definition doc_empty_mime :: fsdoc where
  "doc_empty_mime = [''mimeType'' \<mapsto> StringValue [],
                     ''pages'' \<mapsto> ArrayValue [StringValue ''aGVsbG8='']]"

definition doc_empty_legacy :: fsdoc where
  "doc_empty_legacy = [''mimeType'' \<mapsto> StringValue ''image/jpeg'',
                       ''invoiceData'' \<mapsto> StringValue []]"

definition doc_legacy :: fsdoc where
  "doc_legacy = [''mimeType'' \<mapsto> StringValue ''application/pdf'',
                 ''invoiceData'' \<mapsto> StringValue ''JVBERi0='']"

definition d_servico :: formData where
  "d_servico = initialFormData\<lparr>nome := ''Ana'', email := ''ana@example.com'',
     unidade := ''Unidade 1'', urgencia := ''Alto'', tipo := ''servico'',
     descricaoServico := ''Pintura'', querIndicar := ''sim''\<rparr>"

definition d_produto :: formData where
  "d_produto = initialFormData\<lparr>nome := ''Ana'', email := ''ana@example.com'',
     unidade := ''Unidade 2'', urgencia := ''Baixo'', tipo := ''produto'',
     nomeProduto := ''Teclado'', quantidadeProduto := ''2''\<rparr>"

section \<open>Facts about the store and the payloads\<close>

lemma rtdb_doc_patch:
  "rtdb_doc (rtdb_patch k p db) k' = (if k' = k then rtdb_doc db k ++ p else rtdb_doc db k')"
  by (induction db) (auto simp: rtdb_doc_def)

lemma json_status_payload_Aprovado:
  "json (status_payload Aprovado j now)
     = [''status'' \<mapsto> JStr ''aprovado'', ''approvedAt'' \<mapsto> JStr now]"
  by (rule ext) (simp add: json_def status_payload_def)

lemma json_status_payload_Reprovado:
  "json (status_payload Reprovado j now) =
     [''status'' \<mapsto> JStr ''reprovado'', ''rejectedAt'' \<mapsto> JStr now,
      ''justification'' \<mapsto> JStr (or_empty j)]"
  by (rule ext) (simp add: json_def status_payload_def)

lemma json_status_payload_status:
  "json (status_payload st j now) ''status'' = Some (JStr (decision_str st))"
  by (cases st) (simp_all add: json_status_payload_Aprovado json_status_payload_Reprovado)

lemma json_purchase_payload:
  "json (purchase_payload pd now) k =
     (case pd k of
        Some v \<Rightarrow> json_val v
      | None \<Rightarrow> if k = ''status'' then Some (JStr ''comprado'')
                else if k = ''purchasedAt'' then Some (JStr now) else None)"
  by (simp add: json_def purchase_payload_def map_add_def split: option.splits)

lemma update_ok:
  "updatePurchaseRequestStatus True ident st j now db
     = Inr (rtdb_patch ident (json (status_payload st j now)) db)"
  by (simp add: updatePurchaseRequestStatus_def)

lemma confirm_ok:
  "confirmPurchase True ident pd now db
     = Inr (rtdb_patch ident (json (purchase_payload pd now)) db)"
  by (simp add: confirmPurchase_def)

lemma approve_doc:
  assumes "updatePurchaseRequestStatus ok ident Aprovado j now db = Inr db'"
  shows "rtdb_doc db' i k =
           (if i \<noteq> ident then rtdb_doc db i k
            else if k = ''status'' then Some (JStr ''aprovado'')
            else if k = ''approvedAt'' then Some (JStr now)
            else rtdb_doc db ident k)"
proof -
  from assms have "db' = rtdb_patch ident (json (status_payload Aprovado j now)) db"
    by (simp add: updatePurchaseRequestStatus_def split: if_splits)
  then show ?thesis
    by (simp add: rtdb_doc_patch json_status_payload_Aprovado map_add_def)
qed

lemma reject_doc:
  assumes "updatePurchaseRequestStatus ok ident Reprovado j now db = Inr db'"
  shows "rtdb_doc db' i k =
           (if i \<noteq> ident then rtdb_doc db i k
            else if k = ''status'' then Some (JStr ''reprovado'')
            else if k = ''rejectedAt'' then Some (JStr now)
            else if k = ''justification'' then Some (JStr (or_empty j))
            else rtdb_doc db ident k)"
proof -
  from assms have "db' = rtdb_patch ident (json (status_payload Reprovado j now)) db"
    by (simp add: updatePurchaseRequestStatus_def split: if_splits)
  then show ?thesis
    by (simp add: rtdb_doc_patch json_status_payload_Reprovado map_add_def)
qed

lemma confirm_doc:
  assumes "confirmPurchase ok ident pd now db = Inr db'"
  shows "rtdb_doc db' i k =
           (if i \<noteq> ident then rtdb_doc db i k
            else case json (purchase_payload pd now) k of
                   Some v \<Rightarrow> Some v
                 | None \<Rightarrow> rtdb_doc db ident k)"
proof -
  from assms have "db' = rtdb_patch ident (json (purchase_payload pd now)) db"
    by (simp add: confirmPurchase_def split: if_splits)
  then show ?thesis
    by (simp add: rtdb_doc_patch map_add_def)
qed

lemma engine_free:
  assumes "dom pd \<inter> engine_fields = {}"
  shows "pd ''status'' = None" and "pd ''purchasedAt'' = None"
    and "pd ''approvedAt'' = None" and "pd ''rejectedAt'' = None"
proof -
  have "''status'' \<in> engine_fields" "''purchasedAt'' \<in> engine_fields"
    "''approvedAt'' \<in> engine_fields" "''rejectedAt'' \<in> engine_fields"
    by (simp_all add: engine_fields_def)
  with assms show "pd ''status'' = None" and "pd ''purchasedAt'' = None"
    and "pd ''approvedAt'' = None" and "pd ''rejectedAt'' = None"
    by blast+
qed

lemma json_purchase_payload_engine_free:
  assumes "dom pd \<inter> engine_fields = {}"
  shows "json (purchase_payload pd now) k =
             (if k = ''status'' then Some (JStr ''comprado'')
              else if k = ''purchasedAt'' then Some (JStr now)
              else json pd k)"
proof (cases "k = ''status'' \<or> k = ''purchasedAt''")
  case True
  then show ?thesis
  proof
    assume "k = ''status''"
    then show ?thesis using engine_free(1)[OF assms] by (simp add: json_purchase_payload)
  next
    assume "k = ''purchasedAt''"
    then show ?thesis using engine_free(2)[OF assms] by (simp add: json_purchase_payload)
  qed
next
  case False
  have "json pd k = (case pd k of None \<Rightarrow> None | Some v \<Rightarrow> json_val v)"
    by (simp add: json_def)
  with False show ?thesis by (simp add: json_purchase_payload split: option.splits)
qed

lemma confirm_doc_engine_free:
  assumes "confirmPurchase ok ident pd now db = Inr db'" and "dom pd \<inter> engine_fields = {}"
  shows "rtdb_doc db' ident k =
           (if k = ''status'' then Some (JStr ''comprado'')
            else if k = ''purchasedAt'' then Some (JStr now)
            else case json pd k of Some v \<Rightarrow> Some v | None \<Rightarrow> rtdb_doc db ident k)"
  unfolding confirm_doc[OF assms(1)] json_purchase_payload_engine_free[OF assms(2)]
  by simp

lemma confirm_override:
  assumes "confirmPurchase ok ident pd now db = Inr db'" and "pd k = Some v"
  shows "rtdb_doc db' ident k
           = (case json_val v of Some w \<Rightarrow> Some w | None \<Rightarrow> rtdb_doc db ident k)"
  using assms(2) by (simp add: confirm_doc[OF assms(1)] json_purchase_payload)

lemma json_val_comprado:
  "json_val v = Some (JStr ''comprado'') \<Longrightarrow> v = JStr ''comprado''"
  by (cases v rule: json_val.cases) simp_all

lemma reachable_pages:
  "renderContent ` reachableViews r =
     (case r of
        None \<Rightarrow> {PurchaseForm}
      | Some Admin \<Rightarrow>
          {PurchaseForm, SetorComprasPage, AprovarComprasPage, DashboardsPage, AdminPage}
      | Some User \<Rightarrow> {PurchaseForm}
      | Some Comprador \<Rightarrow> {PurchaseForm, SetorComprasPage}
      | Some Aprovador \<Rightarrow> {PurchaseForm, AprovarComprasPage})"
proof (cases r)
  case None
  then show ?thesis
    by (simp add: reachableViews_def visibleNavItems_def allNavItems_def defaultView_def
        adminLinkVisible_def renderContent_def)
next
  case (Some a)
  then show ?thesis
    by (cases a)
      (auto simp add: reachableViews_def visibleNavItems_def allNavItems_def defaultView_def
        adminLinkVisible_def renderContent_def)
qed

section \<open>Facts about the submission form\<close>

lemma join_contains:
  "l \<in> set xs \<Longrightarrow> \<exists>a b. join sep xs = a @ l @ b"
proof (induction sep xs rule: join.induct)
  case (1 sep)
  then show ?case by simp
next
  case (2 sep x)
  then have "join sep [x] = [] @ l @ []" by simp
  then show ?case by blast
next
  case (3 sep x y ys)
  show ?case
  proof (cases "l = x")
    case True
    then have "join sep (x # y # ys) = [] @ l @ (sep @ join sep (y # ys))" by simp
    then show ?thesis by blast
  next
    case False
    with 3 obtain a b where "join sep (y # ys) = a @ l @ b" by auto
    then have "join sep (x # y # ys) = (x @ sep @ a) @ l @ b" by simp
    then show ?thesis by blast
  qed
qed

lemma message_names:
  assumes "l \<in> set errors"
  shows "\<exists>a b. validation_message errors = a @ l @ b"
proof -
  from join_contains[OF assms] obtain a b where "join '', '' errors = a @ l @ b" by blast
  then have "validation_message errors
      = (''Por favor, preencha os campos obrigat'' @ CHR 0xF3 # ''rios: '' @ a) @ l @ (b @ ''.'')"
    by (simp add: validation_message_def)
  then show ?thesis by blast
qed

lemma labels_distinct:
  "distinct [''Unidade'', lbl_urgencia, ''Tipo'', ''Data e Hora do Prazo'', lbl_descricao,
     ''Nome de quem quer indicar'', ''Produto (nome)'', ''Quantidade'', ''Link do produto'']"
  by (simp add: lbl_urgencia_def lbl_descricao_def)

lemma servico_not_produto: "''servico'' \<noteq> ''produto''" by simp

lemma in_errors:
  "''Unidade'' \<in> set (validation_errors d) \<longleftrightarrow> unidade d = []"
  "lbl_urgencia \<in> set (validation_errors d) \<longleftrightarrow> urgencia d = []"
  "''Tipo'' \<in> set (validation_errors d) \<longleftrightarrow> tipo d = []"
  "''Data e Hora do Prazo'' \<in> set (validation_errors d)
     \<longleftrightarrow> prazo d = ''sim'' \<and> prazoDataHora d = []"
  "lbl_descricao \<in> set (validation_errors d)
     \<longleftrightarrow> tipo d = ''servico'' \<and> descricaoServico d = []"
  "''Nome de quem quer indicar'' \<in> set (validation_errors d)
     \<longleftrightarrow> tipo d = ''servico'' \<and> querIndicar d = ''sim'' \<and> nomeIndicado d = []"
  "''Produto (nome)'' \<in> set (validation_errors d)
     \<longleftrightarrow> tipo d = ''produto'' \<and> nomeProduto d = []"
  "''Quantidade'' \<in> set (validation_errors d)
     \<longleftrightarrow> tipo d = ''produto'' \<and> quantidadeProduto d = []"
  "''Link do produto'' \<in> set (validation_errors d)
     \<longleftrightarrow> tipo d = ''produto'' \<and> querLink d = ''sim'' \<and> linkProduto d = []"
  using labels_distinct
  by (auto simp add: validation_errors_def)

lemma handleSubmit_invalid:
  "validation_errors d \<noteq> [] \<Longrightarrow>
     handleSubmit d uid now ok newKey db
       = (ValidationFailed (validation_message (validation_errors d)), db)"
  by (simp add: handleSubmit_def)

lemma handleSubmit_valid:
  "validation_errors d = [] \<Longrightarrow>
     handleSubmit d uid now True newKey db
       = (Submitted newKey, db @ [(newKey, json (requestData d uid now))])"
  by (simp add: handleSubmit_def addPurchaseRequest_def rtdb_post_def)

lemma handleSubmit_refused:
  "validation_errors d = [] \<Longrightarrow>
     handleSubmit d uid now False newKey db = (SubmitFailed FalhaEnviarSolicitacao, db)"
  by (simp add: handleSubmit_def addPurchaseRequest_def)

lemma requestData_status:
  "json (requestData d uid now) ''status'' = Some (JStr ''pendente'')"
  by (simp add: json_def requestData_def)

lemma produto_valid:
  assumes "unidade d \<noteq> []" "urgencia d \<noteq> []" "tipo d = ''produto''"
    "nomeProduto d \<noteq> []" "quantidadeProduto d \<noteq> []"
    "prazo d = ''sim'' \<longrightarrow> prazoDataHora d \<noteq> []"
    "querLink d = ''sim'' \<longrightarrow> linkProduto d \<noteq> []"
  shows "validation_errors d = []"
  using assms by (simp add: validation_errors_def)

lemma errors_empty_iff: "validation_errors d = [] \<longleftrightarrow> valid_draft d"
  by (auto simp add: validation_errors_def valid_draft_def)

lemma json_requestData:
  "json (requestData d uid now) k =
     (if k = ''status'' then Some (JStr ''pendente'')
      else if k = ''createdAt'' then Some (JStr now)
      else if k = ''requesterUid'' then Some (JStr uid)
      else form_object d k)"
  by (simp add: json_def requestData_def form_object_def)

lemma dom_form_object:
  "dom (form_object d) =
     {''nome'', ''email'', ''unidade'', ''prazo'', ''prazoDataHora'', ''urgencia'', ''tipo'',
      ''descricaoServico'', ''querIndicar'', ''nomeIndicado'', ''nomeProduto'',
      ''quantidadeProduto'', ''querLink'', ''linkProduto''}"
  by (auto simp add: form_object_def split: if_splits)

lemma form_object_no_engine:
  "form_object d ''id'' = None" "form_object d ''status'' = None"
  "form_object d ''createdAt'' = None" "form_object d ''requesterUid'' = None"
  by (simp_all add: form_object_def)

lemma listing_after_post:
  "getPurchaseRequests True (db @ [(k, doc)])
     = Inr (map (\<lambda>(key, d). [''id'' \<mapsto> JStr key] ++ d) db @ [[''id'' \<mapsto> JStr k] ++ doc])"
  by (simp add: getPurchaseRequests_def)

lemma entry_fields:
  "([''id'' \<mapsto> JStr key] ++ json (requestData d uid now)) k =
     (if k = ''status'' then Some (JStr ''pendente'')
      else if k = ''createdAt'' then Some (JStr now)
      else if k = ''requesterUid'' then Some (JStr uid)
      else if k = ''id'' then Some (JStr key)
      else form_object d k)"
  using form_object_no_engine(1)[of d]
  by (simp add: map_add_def json_requestData split: option.splits)

section \<open>Facts about the counts, the currency values and the invoices\<close>

lemma count_with_status_filter:
  "count_with_status s requests = length (filter (has_status s) requests)"
  by (induction requests) (simp_all add: has_status_def)

lemma count_status_mset:
  "length (filter (has_status s) requests)
     = count (mset (map (\<lambda>r. jsget r ''status'') requests)) (JStr s)"
  by (induction requests) (simp_all add: has_status_def)

lemma fixed_counts:
  "count fixed_statuses (JStr ''pendente'') = 3" "count fixed_statuses (JStr ''aprovado'') = 2"
  by (simp_all add: fixed_statuses_def)

lemma cleaned_example: "cleanedValue ''R$ 1.234,56'' = ''1234.56''"
  by (simp add: cleanedValue_def strip_non_numeric_def remove_dots_def is_digit_def)

lemma parse_example: "parseFloat ''1234.56'' = Num (123456 / 100)"
  by (simp add: parseFloat_def is_digit_def is_space_def decimal_def digit_val_def scale10_def)

lemma absent_falsy: "absent v \<Longrightarrow> \<not> truthy v"
  by (auto simp add: absent_def)

lemma js_or_absent: "absent a \<Longrightarrow> absent b \<Longrightarrow> absent (js_or a b)"
  by (simp add: js_or_def)

lemma formatCurrency_absent: "absent v \<Longrightarrow> formatCurrency fmt v = nao_informado"
  by (auto simp add: absent_def formatCurrency_def)

lemma spend_of_absent:
  "absent (jsget req ''valorProduto'') \<Longrightarrow> absent (jsget req ''valorServico'')
     \<Longrightarrow> spend_of nts req = None"
  using absent_falsy[OF js_or_absent] by (simp add: spend_of_def)

lemma spend_of_unparsed:
  "parseFloat (cleanedValue (js_String nts
       (js_or (jsget req ''valorProduto'') (jsget req ''valorServico'')))) = NaN
     \<Longrightarrow> spend_of nts req = None"
  by (simp add: spend_of_def Let_def)

lemma money_step:
  "money (stats_step nts req acc) = money_next nts req (money acc)"
  by (auto simp add: stats_step_def money_def money_next_def Let_def split: option.splits)

lemma money_next_None: "spend_of nts req = None \<Longrightarrow> money_next nts req m = m"
  by (cases m) (simp add: money_next_def)

lemma money_foldl_cong:
  "money a = money b \<Longrightarrow>
     money (foldl (\<lambda>acc req. stats_step nts req acc) a rs)
       = money (foldl (\<lambda>acc req. stats_step nts req acc) b rs)"
proof (induction rs arbitrary: a b)
  case Nil
  then show ?case by simp
next
  case (Cons r rs)
  from Cons.prems have "money (stats_step nts r a) = money (stats_step nts r b)"
    by (simp only: money_step)
  then have "money (foldl (\<lambda>acc req. stats_step nts req acc) (stats_step nts r a) rs)
      = money (foldl (\<lambda>acc req. stats_step nts req acc) (stats_step nts r b) rs)"
    by (rule Cons.IH)
  then show ?case by simp
qed

lemma money_skip:
  assumes "spend_of nts req = None"
  shows "money (calculateStats nts (before @ req # after))
           = money (calculateStats nts (before @ after))"
proof -
  let ?f = "\<lambda>acc req. stats_step nts req acc"
  have "money (stats_step nts req (foldl ?f initial_stats before))
          = money (foldl ?f initial_stats before)"
    using assms by (simp only: money_step money_next_None)
  then have "money (foldl ?f (stats_step nts req (foldl ?f initial_stats before)) after)
      = money (foldl ?f (foldl ?f initial_stats before) after)"
    by (rule money_foldl_cong)
  then show ?thesis by (simp add: calculateStats_def)
qed

lemma spend_of_example:
  assumes "jsget req ''valorProduto'' = JStr ''R$ 1.234,56''"
  shows "spend_of nts req = Some (Num (123456 / 100))"
  using assms by (simp add: spend_of_def js_or_def cleaned_example parse_example)

lemma total_step_Some:
  "has_status ''comprado'' req \<Longrightarrow> spend_of nts req = Some n
     \<Longrightarrow> totalSpent (stats_step nts req acc) = js_add (totalSpent acc) n"
  by (simp add: stats_step_def Let_def)

lemma formatCurrency_example:
  "formatCurrency fmt (JStr ''R$ 1.234,56'') = fmt (JNum (Num (123456 / 100)))"
  by (simp add: formatCurrency_def cleaned_example parse_example)

lemma pageValues_filter:
  "pageValues (Some (ArrayValue vs)) = [s. StringValue s \<leftarrow> vs, s \<noteq> []]"
proof -
  have "List.map_filter (\<lambda>v. stringValue (Some v)) vs = [s. StringValue s \<leftarrow> vs, s \<noteq> []]"
  proof (induction vs)
    case Nil
    then show ?case by (simp add: List.map_filter_simps)
  next
    case (Cons v vs)
    then show ?case by (cases v) (simp_all add: List.map_filter_simps)
  qed
  then show ?thesis by simp
qed

lemma pageValues_map_StringValue:
  "pageValues (Some (ArrayValue (map StringValue ps))) = filter (\<lambda>s. s \<noteq> []) ps"
  by (induction ps) (simp_all add: List.map_filter_simps)

lemma stringValue_Some_iff:
  "stringValue v = Some s \<longleftrightarrow> v = Some (StringValue s) \<and> s \<noteq> []"
  by (cases v rule: stringValue.cases) auto

lemma pageValues_nonempty_entries:
  "\<forall>p \<in> set (pageValues v). p \<noteq> []"
proof (cases v)
  case None
  then show ?thesis by simp
next
  case (Some w)
  then show ?thesis
    by (cases w) (auto simp add: pageValues_filter simp del: pageValues.simps(1))
qed

lemma invoice_fields_mime:
  "invoice_fields nf now ''mimeType'' = Some (StringValue (mimeType nf))"
  by (simp add: invoice_fields_def map_add_def split: option.splits)

lemma invoice_fields_pages:
  "invoice_fields nf now ''pages'' = Some (ArrayValue (map StringValue (pages nf)))"
  by (simp add: invoice_fields_def map_add_def split: option.splits)

lemma fs_patch_same:
  "fs_patch keep ident flds fs ident
     = Some (if keep then (case fs ident of None \<Rightarrow> Map.empty | Some d \<Rightarrow> d) ++ flds else flds)"
  by (simp add: fs_patch_def)

lemma patched_field:
  "flds k = Some v \<Longrightarrow> (if keep then old ++ flds else flds) k = Some v"
  by (simp add: map_add_def)

lemma upload_written:
  assumes "pages nf \<noteq> []"
  shows "fst (snd (uploadAndLinkInvoice True ok2 keep ident nf now (fs, db)))
           = fs_patch keep ident (invoice_fields nf now) fs"
  using assms by (simp add: uploadAndLinkInvoice_def Let_def)

lemma upload_empty:
  "pages nf = [] \<Longrightarrow>
     uploadAndLinkInvoice ok1 ok2 keep ident nf now (fs, db) = (Some NenhumaPaginaProcessada, fs, db)"
  by (simp add: uploadAndLinkInvoice_def)

lemma getInvoice_after_patch:
  assumes "mimeType nf \<noteq> []" and "filter (\<lambda>s. s \<noteq> []) (pages nf) \<noteq> []"
  shows "getInvoice True ident (fs_patch keep ident (invoice_fields nf now) fs)
           = Inr (filter (\<lambda>s. s \<noteq> []) (pages nf), mimeType nf)"
proof -
  let ?doc = "if keep then (case fs ident of None \<Rightarrow> Map.empty | Some d \<Rightarrow> d)
                             ++ invoice_fields nf now
              else invoice_fields nf now"
  have d: "fs_patch keep ident (invoice_fields nf now) fs ident = Some ?doc"
    by (rule fs_patch_same)
  have m: "?doc ''mimeType'' = Some (StringValue (mimeType nf))"
    using invoice_fields_mime by (rule patched_field)
  have p: "?doc ''pages'' = Some (ArrayValue (map StringValue (pages nf)))"
    using invoice_fields_pages by (rule patched_field)
  show ?thesis
    using assms unfolding getInvoice_def d
    by (simp only: if_True option.case m p stringValue.simps pageValues_map_StringValue Let_def)
      simp
qed

lemma stringValue_None_iff:
  "stringValue v = None \<longleftrightarrow> (\<forall>s. v = Some (StringValue s) \<longrightarrow> s = [])"
  by (cases v rule: stringValue.cases) auto

lemma getInvoice_not_found:
  "\<not> ok \<or> fs ident = None \<Longrightarrow> getInvoice ok ident fs = Inl NotaNaoEncontrada"
  by (auto simp add: getInvoice_def)

lemma getInvoice_doc:
  assumes "fs ident = Some doc"
  shows "getInvoice True ident fs =
     (case stringValue (doc ''mimeType'') of
        None \<Rightarrow> Inl FormatoInvalido
      | Some mt \<Rightarrow>
          if pageValues (doc ''pages'') \<noteq> [] then Inr (pageValues (doc ''pages''), mt)
          else (case stringValue (doc ''invoiceData'') of
                  Some d \<Rightarrow> Inr ([d], mt)
                | None \<Rightarrow> Inl NenhumaPaginaEncontrada))"
  using assms by (simp add: getInvoice_def Let_def split: option.splits)

lemma getInvoice_pages:
  assumes "fs ident = Some doc" "doc ''mimeType'' = Some (StringValue mt)" "mt \<noteq> []"
    "pageValues (doc ''pages'') \<noteq> []"
  shows "getInvoice True ident fs = Inr (pageValues (doc ''pages''), mt)"
  using assms(2-4) by (simp add: getInvoice_doc[where fs=fs and ident=ident and doc=doc, OF assms(1)])

lemma getInvoice_legacy:
  assumes "fs ident = Some doc" "doc ''mimeType'' = Some (StringValue mt)" "mt \<noteq> []"
    "pageValues (doc ''pages'') = []" "doc ''invoiceData'' = Some (StringValue d)" "d \<noteq> []"
  shows "getInvoice True ident fs = Inr ([d], mt)"
  using assms(2-6) by (simp add: getInvoice_doc[where fs=fs and ident=ident and doc=doc, OF assms(1)])

lemma getInvoice_Inr_iff:
  "(\<exists>r. getInvoice ok ident fs = Inr r) \<longleftrightarrow>
     ok \<and> (\<exists>doc mt. fs ident = Some doc \<and> doc ''mimeType'' = Some (StringValue mt) \<and> mt \<noteq> []
            \<and> (pageValues (doc ''pages'') \<noteq> []
                \<or> (\<exists>d. doc ''invoiceData'' = Some (StringValue d) \<and> d \<noteq> [])))"
proof (cases "ok \<and> fs ident \<noteq> None")
  case False
  then have "getInvoice ok ident fs = Inl NotaNaoEncontrada"
    by (auto intro: getInvoice_not_found)
  with False show ?thesis by auto
next
  case True
  then obtain doc where d: "fs ident = Some doc" and ok: "ok" by auto
  show ?thesis
  proof (cases "stringValue (doc ''mimeType'')")
    case None
    then have "getInvoice ok ident fs = Inl FormatoInvalido"
      using ok by (simp add: getInvoice_doc[where fs=fs and ident=ident and doc=doc, OF d])
    moreover from None have "\<forall>s. doc ''mimeType'' = Some (StringValue s) \<longrightarrow> s = []"
      by (simp add: stringValue_None_iff)
    ultimately show ?thesis using d by auto
  next
    case (Some mt)
    then have m: "doc ''mimeType'' = Some (StringValue mt)" "mt \<noteq> []"
      by (simp_all add: stringValue_Some_iff)
    show ?thesis
    proof (cases "pageValues (doc ''pages'') \<noteq> []")
      case True
      then have "getInvoice ok ident fs = Inr (pageValues (doc ''pages''), mt)"
        using ok Some by (simp add: getInvoice_doc[where fs=fs and ident=ident and doc=doc, OF d])
      with True m d ok show ?thesis by auto
    next
      case False
      show ?thesis
      proof (cases "stringValue (doc ''invoiceData'')")
        case None
        then have "getInvoice ok ident fs = Inl NenhumaPaginaEncontrada"
          using ok Some False by (simp add: getInvoice_doc[where fs=fs and ident=ident and doc=doc, OF d])
        moreover from None have "\<forall>s. doc ''invoiceData'' = Some (StringValue s) \<longrightarrow> s = []"
          by (simp add: stringValue_None_iff)
        ultimately show ?thesis using d False by auto
      next
        case (Some dd)
        then have i: "doc ''invoiceData'' = Some (StringValue dd)" "dd \<noteq> []"
          by (simp_all add: stringValue_Some_iff)
        have "getInvoice ok ident fs = Inr ([dd], mt)"
          using ok \<open>stringValue (doc ''mimeType'') = Some mt\<close> False Some
          by (simp add: getInvoice_doc[where fs=fs and ident=ident and doc=doc, OF d])
        with m i d ok show ?thesis by auto
      qed
    qed
  qed
qed

lemma getInvoice_whole:
  assumes "getInvoice ok ident fs = Inr (ps, mt)"
  shows "ps \<noteq> [] \<and> [] \<notin> set ps \<and> mt \<noteq> []"
proof -
  have "\<not> (\<not> ok \<or> fs ident = None)"
  proof
    assume "\<not> ok \<or> fs ident = None"
    then have "getInvoice ok ident fs = Inl NotaNaoEncontrada" by (rule getInvoice_not_found)
    with assms show False by simp
  qed
  then obtain doc where d: "fs ident = Some doc" and ok: "ok" by auto
  from assms ok have g: "(case stringValue (doc ''mimeType'') of
        None \<Rightarrow> Inl FormatoInvalido
      | Some mt \<Rightarrow>
          if pageValues (doc ''pages'') \<noteq> [] then Inr (pageValues (doc ''pages''), mt)
          else (case stringValue (doc ''invoiceData'') of
                  Some d \<Rightarrow> Inr ([d], mt)
                | None \<Rightarrow> Inl NenhumaPaginaEncontrada)) = Inr (ps, mt)"
    by (simp add: getInvoice_doc[where fs=fs and ident=ident and doc=doc, OF d])
  then show ?thesis
    using pageValues_nonempty_entries[of "doc ''pages''"]
    by (auto simp add: stringValue_Some_iff split: option.splits if_splits)
qed

lemma roundtrip_general:
  assumes "pages nf \<noteq> []" "[] \<notin> set (pages nf)" "mimeType nf \<noteq> []"
  shows "getInvoice True ident (fst (snd (uploadAndLinkInvoice True okl keep ident nf now (fs, db))))
           = Inr (pages nf, mimeType nf)"
proof -
  from assms(2) have f: "filter (\<lambda>s. s \<noteq> []) (pages nf) = pages nf"
    by (induction "pages nf") (auto simp add: filter_id_conv)
  with assms(1) have ne: "filter (\<lambda>s. s \<noteq> []) (pages nf) \<noteq> []" by simp
  show ?thesis
    unfolding upload_written[OF assms(1)] getInvoice_after_patch[OF assms(3) ne] f ..
qed

section \<open>Status preconditions of the transitions\<close>

text \<open>
  Claim C1 says that Approve and Reject fail unless the request is \<^verbatim>\<open>pendente\<close>, that
  ConfirmPurchase fails unless it is \<^verbatim>\<open>aprovado\<close>, and that a rejected re-approval
  leaves the stored request as it was. At the store below, request \<^verbatim>\<open>r1\<close> is already
  \<^verbatim>\<open>aprovado\<close> since May: approving it again in June succeeds and replaces its
  \<^verbatim>\<open>approvedAt\<close>; and the \<^verbatim>\<open>pendente\<close> request of the second store is turned into
  \<^verbatim>\<open>comprado\<close> by a purchase confirmation.
\<close>

theorem C1_reapprove_counterexample:
  "updatePurchaseRequestStatus True ''r1'' Aprovado None ''2024-06-01T10:00:00.000Z'' db_aprovado
     = Inr [(''r1'', [''status'' \<mapsto> JStr ''aprovado'',
                     ''approvedAt'' \<mapsto> JStr ''2024-06-01T10:00:00.000Z''])]
   \<and> rtdb_doc db_aprovado ''r1'' ''status'' = Some (JStr ''aprovado'')
   \<and> rtdb_doc db_aprovado ''r1'' ''approvedAt'' = Some (JStr ''2024-05-01T10:00:00.000Z'')
   \<and> rtdb_doc db_pendente ''r1'' ''status'' = Some (JStr ''pendente'')
   \<and> confirmPurchase True ''r1'' Map.empty ''2024-06-01T10:00:00.000Z'' db_pendente
     = Inr [(''r1'', [''status'' \<mapsto> JStr ''comprado'', ''nome'' \<mapsto> JStr ''Ana'',
                     ''purchasedAt'' \<mapsto> JStr ''2024-06-01T10:00:00.000Z''])]"
proof (intro conjI)
  show "updatePurchaseRequestStatus True ''r1'' Aprovado None ''2024-06-01T10:00:00.000Z'' db_aprovado
     = Inr [(''r1'', [''status'' \<mapsto> JStr ''aprovado'',
                     ''approvedAt'' \<mapsto> JStr ''2024-06-01T10:00:00.000Z''])]"
    by (simp add: update_ok db_aprovado_def json_status_payload_Aprovado)
  show "rtdb_doc db_aprovado ''r1'' ''status'' = Some (JStr ''aprovado'')"
    by (simp add: db_aprovado_def rtdb_doc_def)
  show "rtdb_doc db_aprovado ''r1'' ''approvedAt'' = Some (JStr ''2024-05-01T10:00:00.000Z'')"
    by (simp add: db_aprovado_def rtdb_doc_def)
  show "rtdb_doc db_pendente ''r1'' ''status'' = Some (JStr ''pendente'')"
    by (simp add: db_pendente_def rtdb_doc_def)
  have "[''status'' \<mapsto> JStr ''pendente'', ''nome'' \<mapsto> JStr ''Ana'']
          ++ json (purchase_payload Map.empty ''2024-06-01T10:00:00.000Z'')
        = [''status'' \<mapsto> JStr ''comprado'', ''nome'' \<mapsto> JStr ''Ana'',
           ''purchasedAt'' \<mapsto> JStr ''2024-06-01T10:00:00.000Z'']"
    by (rule ext) (simp add: json_purchase_payload map_add_def)
  then show "confirmPurchase True ''r1'' Map.empty ''2024-06-01T10:00:00.000Z'' db_pendente
     = Inr [(''r1'', [''status'' \<mapsto> JStr ''comprado'', ''nome'' \<mapsto> JStr ''Ana'',
                     ''purchasedAt'' \<mapsto> JStr ''2024-06-01T10:00:00.000Z''])]"
    by (simp add: confirm_ok db_pendente_def)
qed

text \<open>
  Claim C1 as amended: the three transitions make no check of the current status. When
  the store accepts the write they succeed for every store and identifier and leave the
  new status stored; they fail only when the store refuses the write. The status is
  checked by the views alone: the approval view offers Approve and Reject on a row
  exactly when its status is \<^verbatim>\<open>pendente\<close>, and every row on which the purchasing view
  offers the purchase confirmation has status \<^verbatim>\<open>aprovado\<close>.
\<close>

theorem C1_no_status_check:
  "(\<exists>db'. updatePurchaseRequestStatus True ident st j now db = Inr db'
          \<and> rtdb_doc db' ident ''status'' = Some (JStr (decision_str st)))
   \<and> (\<exists>db'. confirmPurchase True ident Map.empty now db = Inr db'
          \<and> rtdb_doc db' ident ''status'' = Some (JStr ''comprado''))
   \<and> (\<exists>db'. confirmPurchase True ident pd now db = Inr db'
          \<and> rtdb_doc db' ident = rtdb_doc db ident ++ json (purchase_payload pd now))
   \<and> updatePurchaseRequestStatus False ident st j now db = Inl FalhaAtualizarStatus
   \<and> confirmPurchase False ident pd now db = Inl FalhaConfirmarCompra
   \<and> (Aprovar \<in> set (aprovar_row_actions req) \<longleftrightarrow> has_status ''pendente'' req)
   \<and> (Reprovar \<in> set (aprovar_row_actions req) \<longleftrightarrow> has_status ''pendente'' req)
   \<and> (\<forall>req \<in> set (setor_filteredRequests activeTab requests).
         Comprar \<in> set (setor_row_actions activeTab) \<longrightarrow> has_status ''aprovado'' req)"
proof (intro conjI)
  show "\<exists>db'. updatePurchaseRequestStatus True ident st j now db = Inr db'
          \<and> rtdb_doc db' ident ''status'' = Some (JStr (decision_str st))"
    by (simp add: update_ok rtdb_doc_patch json_status_payload_status)
  show "\<exists>db'. confirmPurchase True ident Map.empty now db = Inr db'
          \<and> rtdb_doc db' ident ''status'' = Some (JStr ''comprado'')"
    by (simp add: confirm_ok rtdb_doc_patch json_purchase_payload)
  show "\<exists>db'. confirmPurchase True ident pd now db = Inr db'
          \<and> rtdb_doc db' ident = rtdb_doc db ident ++ json (purchase_payload pd now)"
    by (simp add: confirm_ok rtdb_doc_patch)
  show "updatePurchaseRequestStatus False ident st j now db = Inl FalhaAtualizarStatus"
    by (simp add: updatePurchaseRequestStatus_def)
  show "confirmPurchase False ident pd now db = Inl FalhaConfirmarCompra"
    by (simp add: confirmPurchase_def)
  show "Aprovar \<in> set (aprovar_row_actions req) \<longleftrightarrow> has_status ''pendente'' req"
    by (simp add: aprovar_row_actions_def)
  show "Reprovar \<in> set (aprovar_row_actions req) \<longleftrightarrow> has_status ''pendente'' req"
    by (simp add: aprovar_row_actions_def)
  show "\<forall>req \<in> set (setor_filteredRequests activeTab requests).
         Comprar \<in> set (setor_row_actions activeTab) \<longrightarrow> has_status ''aprovado'' req"
    by (cases activeTab) (simp_all add: setor_row_actions_def setor_filteredRequests_def)
qed

theorem C1_no_status_check_witness:
  "[''status'' \<mapsto> JStr ''aprovado'']
     \<in> set (setor_filteredRequests Pendentes
              [[''status'' \<mapsto> JStr ''aprovado''], [''status'' \<mapsto> JStr ''comprado'']])
   \<and> Comprar \<in> set (setor_row_actions Pendentes)
   \<and> has_status ''aprovado'' [''status'' \<mapsto> JStr ''aprovado'']
   \<and> (\<exists>db'. updatePurchaseRequestStatus True ''r1'' Reprovado (Some ''caro'')
               ''2024-06-01T10:00:00.000Z'' db_aprovado = Inr db'
             \<and> rtdb_doc db' ''r1'' ''status'' = Some (JStr ''reprovado''))"
proof -
  let ?r = "[''status'' \<mapsto> JStr ''aprovado'']"
  let ?rs = "[[''status'' \<mapsto> JStr ''aprovado''], [''status'' \<mapsto> JStr ''comprado'']]"
  note t = C1_no_status_check[of "''r1''" Reprovado "Some ''caro''" "''2024-06-01T10:00:00.000Z''"
      db_aprovado Map.empty ?r Pendentes ?rs]
  have a: "?r \<in> set (setor_filteredRequests Pendentes ?rs)"
    by (simp add: setor_filteredRequests_def has_status_def jsget_def)
  have b: "Comprar \<in> set (setor_row_actions Pendentes)"
    by (simp add: setor_row_actions_def)
  from t a b have c: "has_status ''aprovado'' ?r" by blast
  from t have d: "\<exists>db'. updatePurchaseRequestStatus True ''r1'' Reprovado (Some ''caro'')
               ''2024-06-01T10:00:00.000Z'' db_aprovado = Inr db'
             \<and> rtdb_doc db' ''r1'' ''status'' = Some (JStr ''reprovado'')"
    by simp
  from a b c d show ?thesis by blast
qed

section \<open>Role gating\<close>

text \<open>
  Claim C2 says that an actor of role \<^verbatim>\<open>user\<close> who invokes Approve or ConfirmPurchase
  gets an authorisation error and the stored request stays unchanged. The operations
  take no actor, so their result is the same for every caller: at the store below the
  approval of the \<^verbatim>\<open>pendente\<close> request \<^verbatim>\<open>r1\<close> succeeds and rewrites it, and so does the
  purchase confirmation of the \<^verbatim>\<open>aprovado\<close> one.
\<close>

theorem C2_no_actor_counterexample:
  "updatePurchaseRequestStatus True ''r1'' Aprovado None ''2024-06-02T08:00:00.000Z'' db_pendente
     = Inr [(''r1'', [''status'' \<mapsto> JStr ''aprovado'', ''nome'' \<mapsto> JStr ''Ana'',
                     ''approvedAt'' \<mapsto> JStr ''2024-06-02T08:00:00.000Z''])]
   \<and> rtdb_doc db_pendente ''r1'' ''approvedAt'' = None
   \<and> confirmPurchase True ''r1'' Map.empty ''2024-06-02T08:00:00.000Z'' db_aprovado
     = Inr [(''r1'', [''status'' \<mapsto> JStr ''comprado'',
                     ''approvedAt'' \<mapsto> JStr ''2024-05-01T10:00:00.000Z'',
                     ''purchasedAt'' \<mapsto> JStr ''2024-06-02T08:00:00.000Z''])]
   \<and> rtdb_doc db_aprovado ''r1'' ''purchasedAt'' = None"
proof (intro conjI)
  have "[''status'' \<mapsto> JStr ''pendente'', ''nome'' \<mapsto> JStr ''Ana'']
          ++ [''status'' \<mapsto> JStr ''aprovado'', ''approvedAt'' \<mapsto> JStr ''2024-06-02T08:00:00.000Z'']
        = [''status'' \<mapsto> JStr ''aprovado'', ''nome'' \<mapsto> JStr ''Ana'',
           ''approvedAt'' \<mapsto> JStr ''2024-06-02T08:00:00.000Z'']"
    by (rule ext) (simp add: map_add_def)
  then show "updatePurchaseRequestStatus True ''r1'' Aprovado None ''2024-06-02T08:00:00.000Z'' db_pendente
     = Inr [(''r1'', [''status'' \<mapsto> JStr ''aprovado'', ''nome'' \<mapsto> JStr ''Ana'',
                     ''approvedAt'' \<mapsto> JStr ''2024-06-02T08:00:00.000Z''])]"
    by (simp add: update_ok db_pendente_def json_status_payload_Aprovado)
  show "rtdb_doc db_pendente ''r1'' ''approvedAt'' = None"
    by (simp add: db_pendente_def rtdb_doc_def)
  have "[''status'' \<mapsto> JStr ''aprovado'', ''approvedAt'' \<mapsto> JStr ''2024-05-01T10:00:00.000Z'']
          ++ json (purchase_payload Map.empty ''2024-06-02T08:00:00.000Z'')
        = [''status'' \<mapsto> JStr ''comprado'',
           ''approvedAt'' \<mapsto> JStr ''2024-05-01T10:00:00.000Z'',
           ''purchasedAt'' \<mapsto> JStr ''2024-06-02T08:00:00.000Z'']"
    by (rule ext) (simp add: json_purchase_payload map_add_def)
  then show "confirmPurchase True ''r1'' Map.empty ''2024-06-02T08:00:00.000Z'' db_aprovado
     = Inr [(''r1'', [''status'' \<mapsto> JStr ''comprado'',
                     ''approvedAt'' \<mapsto> JStr ''2024-05-01T10:00:00.000Z'',
                     ''purchasedAt'' \<mapsto> JStr ''2024-06-02T08:00:00.000Z''])]"
    by (simp add: confirm_ok db_aprovado_def)
  show "rtdb_doc db_aprovado ''r1'' ''purchasedAt'' = None"
    by (simp add: db_aprovado_def rtdb_doc_def)
qed

text \<open>
  Claim C2 as amended: Approve and ConfirmPurchase take no actor and check no role; when
  the store accepts the write they succeed for any caller. The role decides only which
  views can be reached: a user of role \<^verbatim>\<open>user\<close>, or of no role, is shown the form alone,
  the approval view is reachable exactly for \<^verbatim>\<open>admin\<close> and \<^verbatim>\<open>aprovador\<close>, and the
  purchasing view exactly for \<^verbatim>\<open>admin\<close> and \<^verbatim>\<open>comprador\<close>.
\<close>

theorem C2_role_gate_is_navigation:
  "visibleNavItems (Some User) = [''formulario'']
   \<and> visibleNavItems None = [''formulario'']
   \<and> renderContent ` reachableViews (Some User) = {PurchaseForm}
   \<and> renderContent ` reachableViews None = {PurchaseForm}
   \<and> (AprovarComprasPage \<in> renderContent ` reachableViews r
          \<longleftrightarrow> r = Some Admin \<or> r = Some Aprovador)
   \<and> (SetorComprasPage \<in> renderContent ` reachableViews r
          \<longleftrightarrow> r = Some Admin \<or> r = Some Comprador)
   \<and> (\<exists>db'. updatePurchaseRequestStatus True ident Aprovado j now db = Inr db'
          \<and> rtdb_doc db' ident ''status'' = Some (JStr ''aprovado''))
   \<and> (\<exists>db'. confirmPurchase True ident Map.empty now db = Inr db'
          \<and> rtdb_doc db' ident ''status'' = Some (JStr ''comprado''))
   \<and> (\<exists>db'. confirmPurchase True ident pd now db = Inr db'
          \<and> rtdb_doc db' ident = rtdb_doc db ident ++ json (purchase_payload pd now))"
proof (intro conjI)
  show "\<exists>db'. confirmPurchase True ident pd now db = Inr db'
          \<and> rtdb_doc db' ident = rtdb_doc db ident ++ json (purchase_payload pd now)"
    by (simp add: confirm_ok rtdb_doc_patch)
  show "visibleNavItems (Some User) = [''formulario'']"
    by (simp add: visibleNavItems_def allNavItems_def)
  show "visibleNavItems None = [''formulario'']"
    by (simp add: visibleNavItems_def allNavItems_def)
  show "renderContent ` reachableViews (Some User) = {PurchaseForm}"
    by (simp add: reachable_pages)
  show "renderContent ` reachableViews None = {PurchaseForm}"
    by (simp add: reachable_pages)
  show "AprovarComprasPage \<in> renderContent ` reachableViews r
          \<longleftrightarrow> r = Some Admin \<or> r = Some Aprovador"
    by (simp add: reachable_pages split: option.splits role.splits)
  show "SetorComprasPage \<in> renderContent ` reachableViews r
          \<longleftrightarrow> r = Some Admin \<or> r = Some Comprador"
    by (simp add: reachable_pages split: option.splits role.splits)
  show "\<exists>db'. updatePurchaseRequestStatus True ident Aprovado j now db = Inr db'
          \<and> rtdb_doc db' ident ''status'' = Some (JStr ''aprovado'')"
    by (simp add: update_ok rtdb_doc_patch json_status_payload_Aprovado)
  show "\<exists>db'. confirmPurchase True ident Map.empty now db = Inr db'
          \<and> rtdb_doc db' ident ''status'' = Some (JStr ''comprado'')"
    by (simp add: confirm_ok rtdb_doc_patch json_purchase_payload)
qed

section \<open>What a transition writes\<close>

text \<open>
  Claim C3: each transition writes its status and one timestamp and leaves the rest of
  the stored request alone. Approve sets \<^verbatim>\<open>status\<close> to \<^verbatim>\<open>aprovado\<close> and \<^verbatim>\<open>approvedAt\<close> to
  the current time and nothing else; Reject sets \<^verbatim>\<open>status\<close> to \<^verbatim>\<open>reprovado\<close>,
  \<^verbatim>\<open>rejectedAt\<close> to the current time and \<^verbatim>\<open>justification\<close> to the given text, or to the
  empty string when none is given; ConfirmPurchase, given fulfilment data (data with
  none of the four fields the transitions write, as the data of the confirmation form
  are), sets \<^verbatim>\<open>status\<close> to \<^verbatim>\<open>comprado\<close>, \<^verbatim>\<open>purchasedAt\<close> to the current time and the
  fulfilment fields. Every other field of the request and every other request is
  unchanged, and a timestamp that was set is still set afterwards. Each of the three
  transitions succeeds whenever the store accepts the write, and fails, returning no
  store, when the store refuses it.
\<close>

theorem C3_transition_frame:
  "(\<forall>db'. updatePurchaseRequestStatus ok ident Aprovado j now db = Inr db' \<longrightarrow>
      (\<forall>k. rtdb_doc db' ident k =
             (if k = ''status'' then Some (JStr ''aprovado'')
              else if k = ''approvedAt'' then Some (JStr now)
              else rtdb_doc db ident k))
      \<and> (\<forall>i. i \<noteq> ident \<longrightarrow> rtdb_doc db' i = rtdb_doc db i))
   \<and> (\<forall>db'. updatePurchaseRequestStatus ok ident Reprovado j now db = Inr db' \<longrightarrow>
      (\<forall>k. rtdb_doc db' ident k =
             (if k = ''status'' then Some (JStr ''reprovado'')
              else if k = ''rejectedAt'' then Some (JStr now)
              else if k = ''justification''
                then Some (JStr (case j of None \<Rightarrow> [] | Some s \<Rightarrow> s))
              else rtdb_doc db ident k))
      \<and> (\<forall>i. i \<noteq> ident \<longrightarrow> rtdb_doc db' i = rtdb_doc db i))
   \<and> (\<forall>db'. confirmPurchase ok ident pd now db = Inr db' \<and> dom pd \<inter> engine_fields = {} \<longrightarrow>
      (\<forall>k. rtdb_doc db' ident k =
             (if k = ''status'' then Some (JStr ''comprado'')
              else if k = ''purchasedAt'' then Some (JStr now)
              else case json pd k of Some v \<Rightarrow> Some v | None \<Rightarrow> rtdb_doc db ident k))
      \<and> (\<forall>i. i \<noteq> ident \<longrightarrow> rtdb_doc db' i = rtdb_doc db i))
   \<and> (\<forall>db' t. t \<in> timestamps \<and> rtdb_doc db ident t \<noteq> None \<and>
         (updatePurchaseRequestStatus ok ident st j now db = Inr db'
          \<or> confirmPurchase ok ident pd now db = Inr db' \<and> dom pd \<inter> engine_fields = {})
        \<longrightarrow> rtdb_doc db' ident t \<noteq> None)
   \<and> fulfillment_fields \<inter> engine_fields = {}
   \<and> (\<exists>db'. updatePurchaseRequestStatus True ident Aprovado j now db = Inr db')
   \<and> (\<exists>db'. updatePurchaseRequestStatus True ident Reprovado j now db = Inr db')
   \<and> (\<exists>db'. confirmPurchase True ident pd now db = Inr db')
   \<and> ((\<exists>db'. updatePurchaseRequestStatus ok ident st j now db = Inr db') \<longleftrightarrow> ok)
   \<and> ((\<exists>db'. confirmPurchase ok ident pd now db = Inr db') \<longleftrightarrow> ok)
   \<and> updatePurchaseRequestStatus False ident st j now db = Inl FalhaAtualizarStatus
   \<and> confirmPurchase False ident pd now db = Inl FalhaConfirmarCompra"
proof (intro conjI allI impI)
  fix db' k assume "updatePurchaseRequestStatus ok ident Aprovado j now db = Inr db'"
  then show "rtdb_doc db' ident k =
             (if k = ''status'' then Some (JStr ''aprovado'')
              else if k = ''approvedAt'' then Some (JStr now)
              else rtdb_doc db ident k)"
    by (simp add: approve_doc)
next
  fix db' i assume "updatePurchaseRequestStatus ok ident Aprovado j now db = Inr db'" "i \<noteq> ident"
  then show "rtdb_doc db' i = rtdb_doc db i"
    by (intro ext) (simp add: approve_doc)
next
  fix db' k assume "updatePurchaseRequestStatus ok ident Reprovado j now db = Inr db'"
  then show "rtdb_doc db' ident k =
             (if k = ''status'' then Some (JStr ''reprovado'')
              else if k = ''rejectedAt'' then Some (JStr now)
              else if k = ''justification''
                then Some (JStr (case j of None \<Rightarrow> [] | Some s \<Rightarrow> s))
              else rtdb_doc db ident k)"
    by (cases j) (simp_all add: reject_doc)
next
  fix db' i assume "updatePurchaseRequestStatus ok ident Reprovado j now db = Inr db'" "i \<noteq> ident"
  then show "rtdb_doc db' i = rtdb_doc db i"
    by (intro ext) (simp add: reject_doc)
next
  fix db' k assume "confirmPurchase ok ident pd now db = Inr db' \<and> dom pd \<inter> engine_fields = {}"
  then have "confirmPurchase ok ident pd now db = Inr db'" "dom pd \<inter> engine_fields = {}"
    by simp_all
  then show "rtdb_doc db' ident k =
             (if k = ''status'' then Some (JStr ''comprado'')
              else if k = ''purchasedAt'' then Some (JStr now)
              else case json pd k of Some v \<Rightarrow> Some v | None \<Rightarrow> rtdb_doc db ident k)"
    by (rule confirm_doc_engine_free)
next
  fix db' i
  assume "confirmPurchase ok ident pd now db = Inr db' \<and> dom pd \<inter> engine_fields = {}" "i \<noteq> ident"
  then have "confirmPurchase ok ident pd now db = Inr db'" "i \<noteq> ident" by simp_all
  then show "rtdb_doc db' i = rtdb_doc db i"
    by (intro ext) (simp add: confirm_doc)
next
  fix db' t
  assume h: "t \<in> timestamps \<and> rtdb_doc db ident t \<noteq> None \<and>
         (updatePurchaseRequestStatus ok ident st j now db = Inr db'
          \<or> confirmPurchase ok ident pd now db = Inr db' \<and> dom pd \<inter> engine_fields = {})"
  then have old: "rtdb_doc db ident t \<noteq> None" by simp
  from h consider (u) "updatePurchaseRequestStatus ok ident st j now db = Inr db'"
    | (c) "confirmPurchase ok ident pd now db = Inr db'" "dom pd \<inter> engine_fields = {}"
    by blast
  then show "rtdb_doc db' ident t \<noteq> None"
  proof cases
    case u
    with old show ?thesis by (cases st) (simp_all add: approve_doc reject_doc)
  next
    case c
    from old show ?thesis
      by (simp add: confirm_doc_engine_free[OF c] split: option.splits)
  qed
next
  show "fulfillment_fields \<inter> engine_fields = {}"
    by (simp add: fulfillment_fields_def engine_fields_def)
next
  show "\<exists>db'. updatePurchaseRequestStatus True ident Aprovado j now db = Inr db'"
    by (simp add: update_ok)
next
  show "\<exists>db'. updatePurchaseRequestStatus True ident Reprovado j now db = Inr db'"
    by (simp add: update_ok)
next
  show "\<exists>db'. confirmPurchase True ident pd now db = Inr db'"
    by (simp add: confirm_ok)
next
  show "(\<exists>db'. updatePurchaseRequestStatus ok ident st j now db = Inr db') \<longleftrightarrow> ok"
    by (cases ok) (simp_all add: updatePurchaseRequestStatus_def)
next
  show "(\<exists>db'. confirmPurchase ok ident pd now db = Inr db') \<longleftrightarrow> ok"
    by (cases ok) (simp_all add: confirmPurchase_def)
next
  show "updatePurchaseRequestStatus False ident st j now db = Inl FalhaAtualizarStatus"
    by (simp add: updatePurchaseRequestStatus_def)
next
  show "confirmPurchase False ident pd now db = Inl FalhaConfirmarCompra"
    by (simp add: confirmPurchase_def)
qed

theorem C3_transition_frame_witness:
  "dom pd_servico \<inter> engine_fields = {}
   \<and> ''approvedAt'' \<in> timestamps
   \<and> rtdb_doc db_aprovado ''r1'' ''approvedAt'' = Some (JStr ''2024-05-01T10:00:00.000Z'')
   \<and> (\<exists>db'. confirmPurchase True ''r1'' pd_servico ''2024-06-01T10:00:00.000Z'' db_aprovado
               = Inr db'
          \<and> rtdb_doc db' ''r1'' ''status'' = Some (JStr ''comprado'')
          \<and> rtdb_doc db' ''r1'' ''purchasedAt'' = Some (JStr ''2024-06-01T10:00:00.000Z'')
          \<and> rtdb_doc db' ''r1'' ''valorServico'' = Some (JNum (Num 150))
          \<and> rtdb_doc db' ''r1'' ''approvedAt'' = Some (JStr ''2024-05-01T10:00:00.000Z'')
          \<and> rtdb_doc db' ''r1'' ''rejectedAt'' = None)
   \<and> (\<exists>db'. updatePurchaseRequestStatus True ''r1'' Aprovado None
                 ''2024-06-01T10:00:00.000Z'' db_pendente = Inr db'
          \<and> rtdb_doc db' ''r1'' ''status'' = Some (JStr ''aprovado'')
          \<and> rtdb_doc db' ''r1'' ''approvedAt'' = Some (JStr ''2024-06-01T10:00:00.000Z'')
          \<and> rtdb_doc db' ''r1'' ''rejectedAt'' = None
          \<and> rtdb_doc db' ''r1'' ''nome'' = Some (JStr ''Ana''))
   \<and> (\<exists>db'. updatePurchaseRequestStatus True ''r1'' Reprovado None
                 ''2024-06-01T10:00:00.000Z'' db_pendente = Inr db'
          \<and> rtdb_doc db' ''r1'' ''status'' = Some (JStr ''reprovado'')
          \<and> rtdb_doc db' ''r1'' ''rejectedAt'' = Some (JStr ''2024-06-01T10:00:00.000Z'')
          \<and> rtdb_doc db' ''r1'' ''justification'' = Some (JStr [])
          \<and> rtdb_doc db' ''r1'' ''approvedAt'' = None
          \<and> rtdb_doc db' ''r1'' ''nome'' = Some (JStr ''Ana''))"
proof -
  let ?now = "''2024-06-01T10:00:00.000Z''"
  have a: "dom pd_servico \<inter> engine_fields = {}"
    by (simp add: pd_servico_def engine_fields_def)
  have b: "''approvedAt'' \<in> timestamps"
    by (simp add: timestamps_def)
  have c: "rtdb_doc db_aprovado ''r1'' ''approvedAt'' = Some (JStr ''2024-05-01T10:00:00.000Z'')"
    "rtdb_doc db_aprovado ''r1'' ''rejectedAt'' = None"
    by (simp_all add: db_aprovado_def rtdb_doc_def)
  have f: "rtdb_doc db_pendente ''r1'' ''nome'' = Some (JStr ''Ana'')"
    "rtdb_doc db_pendente ''r1'' ''approvedAt'' = None"
    "rtdb_doc db_pendente ''r1'' ''rejectedAt'' = None"
    by (simp_all add: db_pendente_def rtdb_doc_def)
  have g: "json pd_servico ''approvedAt'' = None" "json pd_servico ''rejectedAt'' = None"
    "json pd_servico ''valorServico'' = Some (JNum (Num 150))"
    by (simp_all add: json_def pd_servico_def)
  note t = C3_transition_frame[where ok=True and ident="''r1''" and j=None and now="?now"
      and db=db_aprovado and pd=pd_servico and st=Aprovado]
  note u = C3_transition_frame[where ok=True and ident="''r1''" and j=None and now="?now"
      and db=db_pendente and pd=pd_servico and st=Reprovado]
  note t_confirm = t[THEN conjunct2, THEN conjunct2, THEN conjunct1]
  note t_rest = t[THEN conjunct2, THEN conjunct2, THEN conjunct2, THEN conjunct2, THEN conjunct2]
  note u_approve = u[THEN conjunct1]
  note u_reject = u[THEN conjunct2, THEN conjunct1]
  note u_rest = u[THEN conjunct2, THEN conjunct2, THEN conjunct2, THEN conjunct2, THEN conjunct2]
  from t_rest[THEN conjunct2, THEN conjunct2, THEN conjunct1]
  obtain dbc where dc: "confirmPurchase True ''r1'' pd_servico ?now db_aprovado = Inr dbc" ..
  have t': "\<forall>k. rtdb_doc dbc ''r1'' k =
             (if k = ''status'' then Some (JStr ''comprado'')
              else if k = ''purchasedAt'' then Some (JStr ?now)
              else case json pd_servico k of Some v \<Rightarrow> Some v
                   | None \<Rightarrow> rtdb_doc db_aprovado ''r1'' k)"
    by (rule t_confirm[THEN spec, THEN mp, OF conjI[OF dc a], THEN conjunct1])
  from u_rest[THEN conjunct1]
  obtain dba where da:
    "updatePurchaseRequestStatus True ''r1'' Aprovado None ?now db_pendente = Inr dba" ..
  have ua: "\<forall>k. rtdb_doc dba ''r1'' k =
             (if k = ''status'' then Some (JStr ''aprovado'')
              else if k = ''approvedAt'' then Some (JStr ?now)
              else rtdb_doc db_pendente ''r1'' k)"
    by (rule u_approve[THEN spec, THEN mp, OF da, THEN conjunct1])
  from u_rest[THEN conjunct2, THEN conjunct1]
  obtain dbr where dr:
    "updatePurchaseRequestStatus True ''r1'' Reprovado None ?now db_pendente = Inr dbr" ..
  have ur: "\<forall>k. rtdb_doc dbr ''r1'' k =
             (if k = ''status'' then Some (JStr ''reprovado'')
              else if k = ''rejectedAt'' then Some (JStr ?now)
              else if k = ''justification''
                then Some (JStr (case None of None \<Rightarrow> [] | Some s \<Rightarrow> s))
              else rtdb_doc db_pendente ''r1'' k)"
    by (rule u_reject[THEN spec, THEN mp, OF dr, THEN conjunct1])
  have hc: "rtdb_doc dbc ''r1'' ''status'' = Some (JStr ''comprado'')"
    "rtdb_doc dbc ''r1'' ''purchasedAt'' = Some (JStr ?now)"
    "rtdb_doc dbc ''r1'' ''valorServico'' = Some (JNum (Num 150))"
    "rtdb_doc dbc ''r1'' ''approvedAt'' = Some (JStr ''2024-05-01T10:00:00.000Z'')"
    "rtdb_doc dbc ''r1'' ''rejectedAt'' = None"
    by (simp_all add: t' g c)
  have ha: "rtdb_doc dba ''r1'' ''status'' = Some (JStr ''aprovado'')"
    "rtdb_doc dba ''r1'' ''approvedAt'' = Some (JStr ?now)"
    "rtdb_doc dba ''r1'' ''rejectedAt'' = None"
    "rtdb_doc dba ''r1'' ''nome'' = Some (JStr ''Ana'')"
    by (simp_all add: ua f)
  have hr: "rtdb_doc dbr ''r1'' ''status'' = Some (JStr ''reprovado'')"
    "rtdb_doc dbr ''r1'' ''rejectedAt'' = Some (JStr ?now)"
    "rtdb_doc dbr ''r1'' ''justification'' = Some (JStr [])"
    "rtdb_doc dbr ''r1'' ''approvedAt'' = None"
    "rtdb_doc dbr ''r1'' ''nome'' = Some (JStr ''Ana'')"
    by (simp_all add: ur f)
  have ec: "\<exists>db'. confirmPurchase True ''r1'' pd_servico ?now db_aprovado = Inr db'
          \<and> rtdb_doc db' ''r1'' ''status'' = Some (JStr ''comprado'')
          \<and> rtdb_doc db' ''r1'' ''purchasedAt'' = Some (JStr ?now)
          \<and> rtdb_doc db' ''r1'' ''valorServico'' = Some (JNum (Num 150))
          \<and> rtdb_doc db' ''r1'' ''approvedAt'' = Some (JStr ''2024-05-01T10:00:00.000Z'')
          \<and> rtdb_doc db' ''r1'' ''rejectedAt'' = None"
    by (rule exI[of _ dbc]) (intro conjI dc hc)
  have ea: "\<exists>db'. updatePurchaseRequestStatus True ''r1'' Aprovado None ?now db_pendente = Inr db'
          \<and> rtdb_doc db' ''r1'' ''status'' = Some (JStr ''aprovado'')
          \<and> rtdb_doc db' ''r1'' ''approvedAt'' = Some (JStr ?now)
          \<and> rtdb_doc db' ''r1'' ''rejectedAt'' = None
          \<and> rtdb_doc db' ''r1'' ''nome'' = Some (JStr ''Ana'')"
    by (rule exI[of _ dba]) (intro conjI da ha)
  have er: "\<exists>db'. updatePurchaseRequestStatus True ''r1'' Reprovado None ?now db_pendente = Inr db'
          \<and> rtdb_doc db' ''r1'' ''status'' = Some (JStr ''reprovado'')
          \<and> rtdb_doc db' ''r1'' ''rejectedAt'' = Some (JStr ?now)
          \<and> rtdb_doc db' ''r1'' ''justification'' = Some (JStr [])
          \<and> rtdb_doc db' ''r1'' ''approvedAt'' = None
          \<and> rtdb_doc db' ''r1'' ''nome'' = Some (JStr ''Ana'')"
    by (rule exI[of _ dbr]) (intro conjI dr hr)
  show ?thesis
    by (intro conjI a b c(1) ec ea er)
qed

section \<open>The spread in the purchase payload\<close>

text \<open>
  Claim C9: the payload of ConfirmPurchase is \<^verbatim>\<open>{status: 'comprado', purchasedAt: now}\<close>
  with the fulfilment data spread over it. For fulfilment data without the keys
  \<^verbatim>\<open>status\<close> and \<^verbatim>\<open>purchasedAt\<close> the stored status is \<^verbatim>\<open>comprado\<close> and the stored
  \<^verbatim>\<open>purchasedAt\<close> is the current time. A key of the fulfilment data takes the place of
  the value the engine wrote: the payload carries the caller's value, the store
  receives its JSON form (nothing, and so the old field, for \<^verbatim>\<open>undefined\<close>), and a
  caller's \<^verbatim>\<open>status\<close> other than \<^verbatim>\<open>comprado\<close> and \<^verbatim>\<open>undefined\<close> leaves the request in a
  status that is not \<^verbatim>\<open>comprado\<close>.
\<close>

theorem C9_spread_override:
  "(pd ''status'' = None \<and> pd ''purchasedAt'' = None \<longrightarrow>
      purchase_payload pd now ''status'' = Some (JStr ''comprado'')
      \<and> purchase_payload pd now ''purchasedAt'' = Some (JStr now)
      \<and> (\<forall>db'. confirmPurchase ok ident pd now db = Inr db' \<longrightarrow>
            rtdb_doc db' ident ''status'' = Some (JStr ''comprado'')
            \<and> rtdb_doc db' ident ''purchasedAt'' = Some (JStr now)))
   \<and> (\<forall>k v. pd k = Some v \<longrightarrow>
         purchase_payload pd now k = Some v
         \<and> (\<forall>db'. confirmPurchase ok ident pd now db = Inr db' \<longrightarrow>
               rtdb_doc db' ident k
                 = (case json_val v of Some w \<Rightarrow> Some w | None \<Rightarrow> rtdb_doc db ident k)))
   \<and> (\<forall>v db'. pd ''status'' = Some v \<and> v \<noteq> JStr ''comprado'' \<and> v \<noteq> JUndefined
         \<and> confirmPurchase ok ident pd now db = Inr db'
         \<longrightarrow> rtdb_doc db' ident ''status'' \<noteq> Some (JStr ''comprado''))"
proof (intro conjI allI impI)
  assume h: "pd ''status'' = None \<and> pd ''purchasedAt'' = None"
  then show "purchase_payload pd now ''status'' = Some (JStr ''comprado'')"
    by (simp add: purchase_payload_def map_add_def)
  from h show "purchase_payload pd now ''purchasedAt'' = Some (JStr now)"
    by (simp add: purchase_payload_def map_add_def)
  fix db' assume c: "confirmPurchase ok ident pd now db = Inr db'"
  from h show "rtdb_doc db' ident ''status'' = Some (JStr ''comprado'')"
    by (simp add: confirm_doc[OF c] json_purchase_payload)
  from h show "rtdb_doc db' ident ''purchasedAt'' = Some (JStr now)"
    by (simp add: confirm_doc[OF c] json_purchase_payload)
next
  fix k v assume "pd k = Some v"
  then show "purchase_payload pd now k = Some v"
    by (simp add: purchase_payload_def map_add_def)
next
  fix k v db' assume "pd k = Some v" "confirmPurchase ok ident pd now db = Inr db'"
  then show "rtdb_doc db' ident k
                 = (case json_val v of Some w \<Rightarrow> Some w | None \<Rightarrow> rtdb_doc db ident k)"
    by (simp add: confirm_override)
next
  fix v db'
  assume h: "pd ''status'' = Some v \<and> v \<noteq> JStr ''comprado'' \<and> v \<noteq> JUndefined
         \<and> confirmPurchase ok ident pd now db = Inr db'"
  then have "confirmPurchase ok ident pd now db = Inr db'" "pd ''status'' = Some v"
    by simp_all
  then have s: "rtdb_doc db' ident ''status''
      = (case json_val v of Some w \<Rightarrow> Some w | None \<Rightarrow> rtdb_doc db ident ''status'')"
    by (rule confirm_override)
  from h obtain w where w: "json_val v = Some w"
    by (cases v rule: json_val.cases) simp_all
  with h have "w \<noteq> JStr ''comprado''"
    using json_val_comprado by blast
  with s w show "rtdb_doc db' ident ''status'' \<noteq> Some (JStr ''comprado'')"
    by simp
qed

theorem C9_spread_override_witness:
  "pd_servico ''status'' = None \<and> pd_servico ''purchasedAt'' = None
   \<and> confirmPurchase True ''r1'' pd_servico ''2024-06-01T10:00:00.000Z'' db_aprovado
       = Inr (rtdb_patch ''r1'' (json (purchase_payload pd_servico ''2024-06-01T10:00:00.000Z''))
                db_aprovado)
   \<and> rtdb_doc (rtdb_patch ''r1'' (json (purchase_payload pd_servico ''2024-06-01T10:00:00.000Z''))
                db_aprovado) ''r1'' ''status''
       = Some (JStr ''comprado'')
   \<and> pd_override ''status'' = Some (JStr ''pendente'')
   \<and> confirmPurchase True ''r1'' pd_override ''2024-06-01T10:00:00.000Z'' db_aprovado
       = Inr (rtdb_patch ''r1'' (json (purchase_payload pd_override ''2024-06-01T10:00:00.000Z''))
                db_aprovado)
   \<and> rtdb_doc (rtdb_patch ''r1'' (json (purchase_payload pd_override ''2024-06-01T10:00:00.000Z''))
                db_aprovado) ''r1'' ''status''
       = Some (JStr ''pendente'')"
proof -
  let ?now = "''2024-06-01T10:00:00.000Z''"
  have a: "pd_servico ''status'' = None \<and> pd_servico ''purchasedAt'' = None"
    by (simp add: pd_servico_def)
  have b: "confirmPurchase True ''r1'' pd_servico ?now db_aprovado
       = Inr (rtdb_patch ''r1'' (json (purchase_payload pd_servico ?now)) db_aprovado)"
    by (rule confirm_ok)
  have c: "pd_override ''status'' = Some (JStr ''pendente'')"
    by (simp add: pd_override_def)
  have d: "confirmPurchase True ''r1'' pd_override ?now db_aprovado
       = Inr (rtdb_patch ''r1'' (json (purchase_payload pd_override ?now)) db_aprovado)"
    by (rule confirm_ok)
  note t = C9_spread_override[of pd_servico ?now True "''r1''" db_aprovado]
  note u = C9_spread_override[of pd_override ?now True "''r1''" db_aprovado]
  from t a b
  have e: "rtdb_doc (rtdb_patch ''r1'' (json (purchase_payload pd_servico ?now)) db_aprovado)
        ''r1'' ''status'' = Some (JStr ''comprado'')"
    by blast
  from u c d
  have f: "rtdb_doc (rtdb_patch ''r1'' (json (purchase_payload pd_override ?now)) db_aprovado)
        ''r1'' ''status''
      = (case json_val (JStr ''pendente'') of Some w \<Rightarrow> Some w
         | None \<Rightarrow> rtdb_doc db_aprovado ''r1'' ''status'')"
    by blast
  from a b c d e f show ?thesis by simp
qed

section \<open>Validation of a submission\<close>

text \<open>
  Claim C4: the validation of Submit is aggregated. A label is in the list of errors
  exactly when its constraint is violated, the list is empty exactly for a draft with
  every required field, and a draft that violates a constraint gets one message, which
  contains the label of every violated constraint, while the store is left as it was,
  whatever the store would have answered. A service draft that asks for a referral and
  gives no name fails with a message naming \<^verbatim>\<open>Nome de quem quer indicar\<close>. A product
  draft with unit, urgency, category, product name and quantity, and with the deadline
  and the link given when they are asked for, is stored with status \<^verbatim>\<open>pendente\<close> under
  the key of the store when the store accepts the write.
\<close>

theorem C4_validation_aggregated:
  "(''Unidade'' \<in> set (validation_errors d) \<longleftrightarrow> unidade d = [])
   \<and> (lbl_urgencia \<in> set (validation_errors d) \<longleftrightarrow> urgencia d = [])
   \<and> (''Tipo'' \<in> set (validation_errors d) \<longleftrightarrow> tipo d = [])
   \<and> (''Data e Hora do Prazo'' \<in> set (validation_errors d)
        \<longleftrightarrow> prazo d = ''sim'' \<and> prazoDataHora d = [])
   \<and> (lbl_descricao \<in> set (validation_errors d)
        \<longleftrightarrow> tipo d = ''servico'' \<and> descricaoServico d = [])
   \<and> (''Nome de quem quer indicar'' \<in> set (validation_errors d)
        \<longleftrightarrow> tipo d = ''servico'' \<and> querIndicar d = ''sim'' \<and> nomeIndicado d = [])
   \<and> (''Produto (nome)'' \<in> set (validation_errors d)
        \<longleftrightarrow> tipo d = ''produto'' \<and> nomeProduto d = [])
   \<and> (''Quantidade'' \<in> set (validation_errors d)
        \<longleftrightarrow> tipo d = ''produto'' \<and> quantidadeProduto d = [])
   \<and> (''Link do produto'' \<in> set (validation_errors d)
        \<longleftrightarrow> tipo d = ''produto'' \<and> querLink d = ''sim'' \<and> linkProduto d = [])
   \<and> (validation_errors d = [] \<longleftrightarrow> valid_draft d)
   \<and> (\<not> valid_draft d \<longrightarrow>
        handleSubmit d uid now ok newKey db
          = (ValidationFailed (validation_message (validation_errors d)), db)
        \<and> (\<forall>l \<in> set (validation_errors d).
              \<exists>a b. validation_message (validation_errors d) = a @ l @ b))
   \<and> (tipo d = ''servico'' \<and> querIndicar d = ''sim'' \<and> nomeIndicado d = [] \<longrightarrow>
        handleSubmit d uid now ok newKey db
          = (ValidationFailed (validation_message (validation_errors d)), db)
        \<and> (\<exists>a b. validation_message (validation_errors d)
                    = a @ ''Nome de quem quer indicar'' @ b))
   \<and> (unidade d \<noteq> [] \<and> urgencia d \<noteq> [] \<and> tipo d = ''produto''
        \<and> nomeProduto d \<noteq> [] \<and> quantidadeProduto d \<noteq> []
        \<and> (prazo d = ''sim'' \<longrightarrow> prazoDataHora d \<noteq> [])
        \<and> (querLink d = ''sim'' \<longrightarrow> linkProduto d \<noteq> []) \<longrightarrow>
        handleSubmit d uid now True newKey db
          = (Submitted newKey, db @ [(newKey, json (requestData d uid now))])
        \<and> json (requestData d uid now) ''status'' = Some (JStr ''pendente''))"
proof (intro conjI impI)
  assume "\<not> valid_draft d"
  then have "validation_errors d \<noteq> []" by (simp add: errors_empty_iff)
  then show "handleSubmit d uid now ok newKey db
          = (ValidationFailed (validation_message (validation_errors d)), db)"
    by (rule handleSubmit_invalid)
next
  show "\<forall>l \<in> set (validation_errors d).
              \<exists>a b. validation_message (validation_errors d) = a @ l @ b"
    using message_names by blast
next
  assume h: "tipo d = ''servico'' \<and> querIndicar d = ''sim'' \<and> nomeIndicado d = []"
  then have m: "''Nome de quem quer indicar'' \<in> set (validation_errors d)"
    by (simp add: in_errors)
  then have "validation_errors d \<noteq> []" by auto
  then show "handleSubmit d uid now ok newKey db
          = (ValidationFailed (validation_message (validation_errors d)), db)"
    by (rule handleSubmit_invalid)
  from m show "\<exists>a b. validation_message (validation_errors d)
                    = a @ ''Nome de quem quer indicar'' @ b"
    by (rule message_names)
next
  assume h: "unidade d \<noteq> [] \<and> urgencia d \<noteq> [] \<and> tipo d = ''produto''
        \<and> nomeProduto d \<noteq> [] \<and> quantidadeProduto d \<noteq> []
        \<and> (prazo d = ''sim'' \<longrightarrow> prazoDataHora d \<noteq> [])
        \<and> (querLink d = ''sim'' \<longrightarrow> linkProduto d \<noteq> [])"
  then have "validation_errors d = []" by (simp add: produto_valid)
  then show "handleSubmit d uid now True newKey db
          = (Submitted newKey, db @ [(newKey, json (requestData d uid now))])"
    by (rule handleSubmit_valid)
next
  show "json (requestData d uid now) ''status'' = Some (JStr ''pendente'')"
    by (rule requestData_status)
qed (simp_all add: in_errors errors_empty_iff)

theorem C4_validation_aggregated_witness:
  "\<not> valid_draft initialFormData
   \<and> validation_errors initialFormData = [''Unidade'', lbl_urgencia, ''Tipo'']
   \<and> handleSubmit initialFormData ''ana'' ''2024-06-01T10:00:00.000Z'' True ''k1'' db_pendente
       = (ValidationFailed (validation_message [''Unidade'', lbl_urgencia, ''Tipo'']), db_pendente)
   \<and> (\<exists>a b. validation_message [''Unidade'', lbl_urgencia, ''Tipo''] = a @ ''Tipo'' @ b)
   \<and> tipo d_servico = ''servico'' \<and> querIndicar d_servico = ''sim'' \<and> nomeIndicado d_servico = []
   \<and> handleSubmit d_servico ''ana'' ''2024-06-01T10:00:00.000Z'' True ''k1'' db_pendente
       = (ValidationFailed (validation_message [''Nome de quem quer indicar'']), db_pendente)
   \<and> unidade d_produto \<noteq> [] \<and> urgencia d_produto \<noteq> [] \<and> tipo d_produto = ''produto''
   \<and> nomeProduto d_produto \<noteq> [] \<and> quantidadeProduto d_produto \<noteq> []
   \<and> prazo d_produto \<noteq> ''sim'' \<and> querLink d_produto \<noteq> ''sim''
   \<and> handleSubmit d_produto ''ana'' ''2024-06-01T10:00:00.000Z'' True ''k1'' db_pendente
       = (Submitted ''k1'',
          db_pendente @ [(''k1'', json (requestData d_produto ''ana'' ''2024-06-01T10:00:00.000Z''))])"
proof -
  let ?now = "''2024-06-01T10:00:00.000Z''"
  note t0 = C4_validation_aggregated[of initialFormData "''ana''" ?now True "''k1''" db_pendente]
  note t1 = C4_validation_aggregated[of d_servico "''ana''" ?now True "''k1''" db_pendente]
  note t2 = C4_validation_aggregated[of d_produto "''ana''" ?now True "''k1''" db_pendente]
  have e0: "validation_errors initialFormData = [''Unidade'', lbl_urgencia, ''Tipo'']"
    by (simp add: validation_errors_def initialFormData_def)
  have e1: "validation_errors d_servico = [''Nome de quem quer indicar'']"
    by (simp add: validation_errors_def initialFormData_def d_servico_def)
  have v0: "\<not> valid_draft initialFormData"
    by (simp add: valid_draft_def initialFormData_def)
  have s1: "tipo d_servico = ''servico'' \<and> querIndicar d_servico = ''sim'' \<and> nomeIndicado d_servico = []"
    by (simp add: initialFormData_def d_servico_def)
  have p2: "unidade d_produto \<noteq> [] \<and> urgencia d_produto \<noteq> [] \<and> tipo d_produto = ''produto''
     \<and> nomeProduto d_produto \<noteq> [] \<and> quantidadeProduto d_produto \<noteq> []
     \<and> prazo d_produto \<noteq> ''sim'' \<and> querLink d_produto \<noteq> ''sim''"
    by (simp add: initialFormData_def d_produto_def)
  from t0 have i0: "\<not> valid_draft initialFormData \<longrightarrow>
        handleSubmit initialFormData ''ana'' ?now True ''k1'' db_pendente
          = (ValidationFailed (validation_message (validation_errors initialFormData)), db_pendente)
        \<and> (\<forall>l \<in> set (validation_errors initialFormData).
              \<exists>a b. validation_message (validation_errors initialFormData) = a @ l @ b)"
    by (elim conjE)
  note r0 = mp[OF i0 v0]
  note a = r0[THEN conjunct1, unfolded e0]
  have "''Tipo'' \<in> set (validation_errors initialFormData)"
    unfolding e0 by simp
  with r0[THEN conjunct2]
  have "\<exists>a b. validation_message (validation_errors initialFormData) = a @ ''Tipo'' @ b"
    by (rule bspec)
  then have b: "\<exists>a b. validation_message [''Unidade'', lbl_urgencia, ''Tipo''] = a @ ''Tipo'' @ b"
    unfolding e0 .
  from t1 have i1: "tipo d_servico = ''servico'' \<and> querIndicar d_servico = ''sim''
        \<and> nomeIndicado d_servico = [] \<longrightarrow>
        handleSubmit d_servico ''ana'' ?now True ''k1'' db_pendente
          = (ValidationFailed (validation_message (validation_errors d_servico)), db_pendente)
        \<and> (\<exists>a b. validation_message (validation_errors d_servico)
                    = a @ ''Nome de quem quer indicar'' @ b)"
    by (elim conjE)
  note c = mp[OF i1 s1, THEN conjunct1, unfolded e1]
  from t2 have i2: "unidade d_produto \<noteq> [] \<and> urgencia d_produto \<noteq> [] \<and> tipo d_produto = ''produto''
        \<and> nomeProduto d_produto \<noteq> [] \<and> quantidadeProduto d_produto \<noteq> []
        \<and> (prazo d_produto = ''sim'' \<longrightarrow> prazoDataHora d_produto \<noteq> [])
        \<and> (querLink d_produto = ''sim'' \<longrightarrow> linkProduto d_produto \<noteq> []) \<longrightarrow>
        handleSubmit d_produto ''ana'' ?now True ''k1'' db_pendente
          = (Submitted ''k1'', db_pendente @ [(''k1'', json (requestData d_produto ''ana'' ?now))])
        \<and> json (requestData d_produto ''ana'' ?now) ''status'' = Some (JStr ''pendente'')"
    by (elim conjE)
  have p2': "unidade d_produto \<noteq> [] \<and> urgencia d_produto \<noteq> [] \<and> tipo d_produto = ''produto''
        \<and> nomeProduto d_produto \<noteq> [] \<and> quantidadeProduto d_produto \<noteq> []
        \<and> (prazo d_produto = ''sim'' \<longrightarrow> prazoDataHora d_produto \<noteq> [])
        \<and> (querLink d_produto = ''sim'' \<longrightarrow> linkProduto d_produto \<noteq> [])"
    by (simp add: initialFormData_def d_produto_def)
  note d = mp[OF i2 p2', THEN conjunct1]
  show ?thesis
    by (intro conjI v0 e0 a b c d s1[THEN conjunct1] s1[THEN conjunct2, THEN conjunct1]
        s1[THEN conjunct2, THEN conjunct2] p2[THEN conjunct1] p2[THEN conjunct2, THEN conjunct1]
        p2[THEN conjunct2, THEN conjunct2, THEN conjunct1]
        p2[THEN conjunct2, THEN conjunct2, THEN conjunct2, THEN conjunct1]
        p2[THEN conjunct2, THEN conjunct2, THEN conjunct2, THEN conjunct2, THEN conjunct1]
        p2[THEN conjunct2, THEN conjunct2, THEN conjunct2, THEN conjunct2, THEN conjunct2, THEN conjunct1]
        p2[THEN conjunct2, THEN conjunct2, THEN conjunct2, THEN conjunct2, THEN conjunct2, THEN conjunct2])
qed

section \<open>Listing a submitted request\<close>

text \<open>
  Claim C5: for a valid draft that the store accepts, the listing after the submission
  is the listing before it followed by one entry, and that entry has every field of
  the form with the value submitted, status \<^verbatim>\<open>pendente\<close>, the creation time, and the
  key the store assigned as its \<^verbatim>\<open>id\<close>.
\<close>

theorem C5_submit_list_roundtrip:
  "valid_draft d \<longrightarrow>
     (\<exists>entry.
        handleSubmit d uid now True newKey db
          = (Submitted newKey, db @ [(newKey, json (requestData d uid now))])
        \<and> getPurchaseRequests True (snd (handleSubmit d uid now True newKey db))
            = Inr (map (\<lambda>(key, doc). [''id'' \<mapsto> JStr key] ++ doc) db @ [entry])
        \<and> getPurchaseRequests True db
            = Inr (map (\<lambda>(key, doc). [''id'' \<mapsto> JStr key] ++ doc) db)
        \<and> (\<forall>k v. form_object d k = Some v \<longrightarrow> entry k = Some v)
        \<and> entry ''nome'' = Some (JStr (nome d))
        \<and> entry ''email'' = Some (JStr (email d))
        \<and> entry ''unidade'' = Some (JStr (unidade d))
        \<and> entry ''prazo'' = Some (JStr (prazo d))
        \<and> entry ''prazoDataHora'' = Some (JStr (prazoDataHora d))
        \<and> entry ''urgencia'' = Some (JStr (urgencia d))
        \<and> entry ''tipo'' = Some (JStr (tipo d))
        \<and> entry ''descricaoServico'' = Some (JStr (descricaoServico d))
        \<and> entry ''querIndicar'' = Some (JStr (querIndicar d))
        \<and> entry ''nomeIndicado'' = Some (JStr (nomeIndicado d))
        \<and> entry ''nomeProduto'' = Some (JStr (nomeProduto d))
        \<and> entry ''quantidadeProduto'' = Some (JStr (quantidadeProduto d))
        \<and> entry ''querLink'' = Some (JStr (querLink d))
        \<and> entry ''linkProduto'' = Some (JStr (linkProduto d))
        \<and> entry ''status'' = Some (JStr ''pendente'')
        \<and> entry ''createdAt'' = Some (JStr now)
        \<and> entry ''id'' = Some (JStr newKey))"
proof
  assume "valid_draft d"
  then have v: "validation_errors d = []" by (simp add: errors_empty_iff)
  let ?entry = "[''id'' \<mapsto> JStr newKey] ++ json (requestData d uid now)"
  have hs: "handleSubmit d uid now True newKey db
          = (Submitted newKey, db @ [(newKey, json (requestData d uid now))])"
    using v by (rule handleSubmit_valid)
  have l1: "getPurchaseRequests True (snd (handleSubmit d uid now True newKey db))
            = Inr (map (\<lambda>(key, doc). [''id'' \<mapsto> JStr key] ++ doc) db @ [?entry])"
    unfolding hs by (simp add: listing_after_post)
  have l0: "getPurchaseRequests True db
            = Inr (map (\<lambda>(key, doc). [''id'' \<mapsto> JStr key] ++ doc) db)"
    by (simp add: getPurchaseRequests_def)
  have all: "\<forall>k v. form_object d k = Some v \<longrightarrow> ?entry k = Some v"
  proof (intro allI impI)
    fix k v assume f: "form_object d k = Some v"
    then have "k \<noteq> ''status''" "k \<noteq> ''createdAt''" "k \<noteq> ''requesterUid''" "k \<noteq> ''id''"
      using form_object_no_engine[of d] by auto
    then show "?entry k = Some v"
      using f unfolding entry_fields by simp
  qed
  have fo: "form_object d ''nome'' = Some (JStr (nome d))"
    "form_object d ''email'' = Some (JStr (email d))"
    "form_object d ''unidade'' = Some (JStr (unidade d))"
    "form_object d ''prazo'' = Some (JStr (prazo d))"
    "form_object d ''prazoDataHora'' = Some (JStr (prazoDataHora d))"
    "form_object d ''urgencia'' = Some (JStr (urgencia d))"
    "form_object d ''tipo'' = Some (JStr (tipo d))"
    "form_object d ''descricaoServico'' = Some (JStr (descricaoServico d))"
    "form_object d ''querIndicar'' = Some (JStr (querIndicar d))"
    "form_object d ''nomeIndicado'' = Some (JStr (nomeIndicado d))"
    "form_object d ''nomeProduto'' = Some (JStr (nomeProduto d))"
    "form_object d ''quantidadeProduto'' = Some (JStr (quantidadeProduto d))"
    "form_object d ''querLink'' = Some (JStr (querLink d))"
    "form_object d ''linkProduto'' = Some (JStr (linkProduto d))"
    by (simp_all add: form_object_def)
  have e1: "?entry ''status'' = Some (JStr ''pendente'')"
    "?entry ''createdAt'' = Some (JStr now)" "?entry ''id'' = Some (JStr newKey)"
    unfolding entry_fields by simp_all
  show "\<exists>entry.
        handleSubmit d uid now True newKey db
          = (Submitted newKey, db @ [(newKey, json (requestData d uid now))])
        \<and> getPurchaseRequests True (snd (handleSubmit d uid now True newKey db))
            = Inr (map (\<lambda>(key, doc). [''id'' \<mapsto> JStr key] ++ doc) db @ [entry])
        \<and> getPurchaseRequests True db
            = Inr (map (\<lambda>(key, doc). [''id'' \<mapsto> JStr key] ++ doc) db)
        \<and> (\<forall>k v. form_object d k = Some v \<longrightarrow> entry k = Some v)
        \<and> entry ''nome'' = Some (JStr (nome d))
        \<and> entry ''email'' = Some (JStr (email d))
        \<and> entry ''unidade'' = Some (JStr (unidade d))
        \<and> entry ''prazo'' = Some (JStr (prazo d))
        \<and> entry ''prazoDataHora'' = Some (JStr (prazoDataHora d))
        \<and> entry ''urgencia'' = Some (JStr (urgencia d))
        \<and> entry ''tipo'' = Some (JStr (tipo d))
        \<and> entry ''descricaoServico'' = Some (JStr (descricaoServico d))
        \<and> entry ''querIndicar'' = Some (JStr (querIndicar d))
        \<and> entry ''nomeIndicado'' = Some (JStr (nomeIndicado d))
        \<and> entry ''nomeProduto'' = Some (JStr (nomeProduto d))
        \<and> entry ''quantidadeProduto'' = Some (JStr (quantidadeProduto d))
        \<and> entry ''querLink'' = Some (JStr (querLink d))
        \<and> entry ''linkProduto'' = Some (JStr (linkProduto d))
        \<and> entry ''status'' = Some (JStr ''pendente'')
        \<and> entry ''createdAt'' = Some (JStr now)
        \<and> entry ''id'' = Some (JStr newKey)"
    apply (rule exI[of _ ?entry])
    apply (intro conjI hs l1 l0 all e1 fo[THEN all[rule_format]])
    done
qed

theorem C5_submit_list_roundtrip_witness:
  "valid_draft d_produto
   \<and> (\<exists>entry. getPurchaseRequests True
                 (snd (handleSubmit d_produto ''ana'' ''2024-06-01T10:00:00.000Z'' True ''k1'' db_pendente))
               = Inr (map (\<lambda>(key, doc). [''id'' \<mapsto> JStr key] ++ doc) db_pendente @ [entry])
        \<and> entry ''nomeProduto'' = Some (JStr ''Teclado'')
        \<and> entry ''status'' = Some (JStr ''pendente'')
        \<and> entry ''id'' = Some (JStr ''k1''))"
proof -
  have v: "valid_draft d_produto"
    by (simp add: valid_draft_def d_produto_def initialFormData_def)
  have n: "nomeProduto d_produto = ''Teclado''"
    by (simp add: d_produto_def initialFormData_def)
  from mp[OF C5_submit_list_roundtrip[of d_produto "''ana''" "''2024-06-01T10:00:00.000Z''" "''k1''" db_pendente] v]
  obtain entry where
    "getPurchaseRequests True
        (snd (handleSubmit d_produto ''ana'' ''2024-06-01T10:00:00.000Z'' True ''k1'' db_pendente))
      = Inr (map (\<lambda>(key, doc). [''id'' \<mapsto> JStr key] ++ doc) db_pendente @ [entry])"
    "entry ''nomeProduto'' = Some (JStr (nomeProduto d_produto))"
    "entry ''status'' = Some (JStr ''pendente'')"
    "entry ''id'' = Some (JStr ''k1'')"
    by (elim exE conjE)
  with v n show ?thesis by auto
qed

section \<open>The derived counts\<close>

text \<open>
  Claim C6: the counts are a projection of the whole collection. For every list of
  requests the first count is the number of requests with status \<^verbatim>\<open>pendente\<close> and the
  second the number with status \<^verbatim>\<open>aprovado\<close>; a fetch that succeeds computes them from
  the listing of the whole collection, whatever the counts were before; and every
  collection with three \<^verbatim>\<open>pendente\<close>, two \<^verbatim>\<open>aprovado\<close>, one \<^verbatim>\<open>reprovado\<close> and four
  \<^verbatim>\<open>comprado\<close> requests, in any order, gives the counts 3 and 2.
\<close>

theorem C6_derived_counts:
  "derivedCounts requests
     = (count_with_status ''pendente'' requests, count_with_status ''aprovado'' requests)
   \<and> fetchCounts True db previous
     = derivedCounts (map (\<lambda>(key, doc). [''id'' \<mapsto> JStr key] ++ doc) db)
   \<and> (mset (map (\<lambda>r. jsget r ''status'') requests) = fixed_statuses
        \<longrightarrow> derivedCounts requests = (3, 2))"
proof (intro conjI impI)
  show "derivedCounts requests
     = (count_with_status ''pendente'' requests, count_with_status ''aprovado'' requests)"
    by (simp add: derivedCounts_def count_with_status_filter)
  show "fetchCounts True db previous
     = derivedCounts (map (\<lambda>(key, doc). [''id'' \<mapsto> JStr key] ++ doc) db)"
    by (simp add: fetchCounts_def getPurchaseRequests_def)
  assume "mset (map (\<lambda>r. jsget r ''status'') requests) = fixed_statuses"
  then show "derivedCounts requests = (3, 2)"
    by (simp add: derivedCounts_def count_status_mset fixed_counts)
qed

theorem C6_derived_counts_witness:
  "mset (map (\<lambda>r. jsget r ''status'') fixed_requests) = fixed_statuses
   \<and> derivedCounts fixed_requests = (3, 2)"
proof -
  have a: "mset (map (\<lambda>r. jsget r ''status'') fixed_requests) = fixed_statuses"
    by (simp add: fixed_requests_def fixed_statuses_def req_of_def jsget_def numeral_3_eq_3 numeral_2_eq_2 eval_nat_numeral)
  have "derivedCounts fixed_requests = (3, 2)"
    by (rule C6_derived_counts[of fixed_requests, THEN conjunct2, THEN conjunct2, THEN mp, OF a])
  with a show ?thesis by (rule conjI)
qed

section \<open>Normalising currency values\<close>

text \<open>
  Claim C7: the text \<^verbatim>\<open>R$ 1.234,56\<close> is cleaned to \<^verbatim>\<open>1234.56\<close> and parsed to the number
  1234.56, which is what the formatter receives and what a purchased request with this
  value adds to the total spend. The empty string, \<^verbatim>\<open>null\<close> and \<^verbatim>\<open>undefined\<close> are shown
  as the text \<open>nao_informado\<close>, and a request whose two value fields are absent adds
  nothing. A value whose cleaned text does not parse adds nothing either: the round of
  the loop leaves the three amounts as they were, and the amounts of the whole
  collection are those of the collection without the request. The loop has no failing
  branch.
\<close>

theorem C7_currency_normalization:
  "cleanedValue ''R$ 1.234,56'' = ''1234.56''
   \<and> parseFloat (cleanedValue ''R$ 1.234,56'') = Num (123456 / 100)
   \<and> formatCurrency fmt (JStr ''R$ 1.234,56'') = fmt (JNum (Num (123456 / 100)))
   \<and> (has_status ''comprado'' req \<and> jsget req ''valorProduto'' = JStr ''R$ 1.234,56'' \<longrightarrow>
        totalSpent (stats_step nts req acc) = js_add (totalSpent acc) (Num (123456 / 100)))
   \<and> formatCurrency fmt (JStr []) = nao_informado
   \<and> formatCurrency fmt JNull = nao_informado
   \<and> formatCurrency fmt JUndefined = nao_informado
   \<and> (absent (jsget req ''valorProduto'') \<and> absent (jsget req ''valorServico'') \<longrightarrow>
        spend_of nts req = None
        \<and> formatCurrency fmt (js_or (jsget req ''valorProduto'') (jsget req ''valorServico''))
            = nao_informado)
   \<and> (parseFloat (cleanedValue (js_String nts
          (js_or (jsget req ''valorProduto'') (jsget req ''valorServico'')))) = NaN \<longrightarrow>
        spend_of nts req = None)
   \<and> (spend_of nts req = None \<longrightarrow>
        money (stats_step nts req acc) = money acc
        \<and> money (calculateStats nts (before @ req # after))
            = money (calculateStats nts (before @ after)))"
proof (intro conjI impI)
  show "cleanedValue ''R$ 1.234,56'' = ''1234.56''" by (rule cleaned_example)
  show "parseFloat (cleanedValue ''R$ 1.234,56'') = Num (123456 / 100)"
    by (simp only: cleaned_example parse_example)
  show "formatCurrency fmt (JStr ''R$ 1.234,56'') = fmt (JNum (Num (123456 / 100)))"
    by (rule formatCurrency_example)
  show "formatCurrency fmt (JStr []) = nao_informado"
    by (simp add: formatCurrency_absent absent_def)
  show "formatCurrency fmt JNull = nao_informado"
    by (simp add: formatCurrency_absent absent_def)
  show "formatCurrency fmt JUndefined = nao_informado"
    by (simp add: formatCurrency_absent absent_def)
next
  assume "has_status ''comprado'' req \<and> jsget req ''valorProduto'' = JStr ''R$ 1.234,56''"
  then have "has_status ''comprado'' req" "spend_of nts req = Some (Num (123456 / 100))"
    by (simp_all add: spend_of_example)
  then show "totalSpent (stats_step nts req acc) = js_add (totalSpent acc) (Num (123456 / 100))"
    by (rule total_step_Some)
next
  assume h: "absent (jsget req ''valorProduto'') \<and> absent (jsget req ''valorServico'')"
  then show "spend_of nts req = None" by (simp add: spend_of_absent)
  from h show "formatCurrency fmt (js_or (jsget req ''valorProduto'') (jsget req ''valorServico''))
            = nao_informado"
    by (simp add: formatCurrency_absent js_or_absent)
next
  assume "parseFloat (cleanedValue (js_String nts
          (js_or (jsget req ''valorProduto'') (jsget req ''valorServico'')))) = NaN"
  then show "spend_of nts req = None" by (rule spend_of_unparsed)
next
  assume n: "spend_of nts req = None"
  then show "money (stats_step nts req acc) = money acc"
    by (simp only: money_step money_next_None)
  from n show "money (calculateStats nts (before @ req # after))
            = money (calculateStats nts (before @ after))"
    by (rule money_skip)
qed

theorem C7_currency_normalization_witness:
  "has_status ''comprado'' req_brl \<and> jsget req_brl ''valorProduto'' = JStr ''R$ 1.234,56''
   \<and> totalSpent (stats_step no_text req_brl initial_stats) = Num (123456 / 100)
   \<and> absent (jsget req_blank ''valorProduto'') \<and> absent (jsget req_blank ''valorServico'')
   \<and> spend_of no_text req_blank = None
   \<and> parseFloat (cleanedValue (js_String no_text
          (js_or (jsget req_text ''valorProduto'') (jsget req_text ''valorServico'')))) = NaN
   \<and> spend_of no_text req_text = None
   \<and> money (calculateStats no_text ([req_brl] @ req_text # [req_blank]))
       = money (calculateStats no_text ([req_brl] @ [req_blank]))"
proof -
  have a: "has_status ''comprado'' req_brl \<and> jsget req_brl ''valorProduto'' = JStr ''R$ 1.234,56''"
    by (simp add: has_status_def jsget_def req_brl_def)
  have b: "absent (jsget req_blank ''valorProduto'') \<and> absent (jsget req_blank ''valorServico'')"
    by (simp add: absent_def jsget_def req_blank_def)
  have c: "parseFloat (cleanedValue (js_String no_text
          (js_or (jsget req_text ''valorProduto'') (jsget req_text ''valorServico'')))) = NaN"
    by (simp add: jsget_def req_text_def js_or_def cleanedValue_def strip_non_numeric_def
        remove_dots_def is_digit_def parseFloat_def is_space_def)
  note t1 = C7_currency_normalization[of _ req_brl no_text initial_stats]
  note t2 = C7_currency_normalization[of "\<lambda>v. []" req_blank no_text initial_stats]
  note t3 = C7_currency_normalization[of "\<lambda>v. []" req_text no_text initial_stats "[req_brl]" "[req_blank]"]
  have d: "totalSpent (stats_step no_text req_brl initial_stats)
      = js_add (totalSpent initial_stats) (Num (123456 / 100))"
    by (rule t1[THEN conjunct2, THEN conjunct2, THEN conjunct2, THEN conjunct1, THEN mp, OF a])
  have d': "totalSpent (stats_step no_text req_brl initial_stats) = Num (123456 / 100)"
    unfolding d by (simp add: initial_stats_def)
  have e: "spend_of no_text req_blank = None"
    by (rule t2[THEN conjunct2, THEN conjunct2, THEN conjunct2, THEN conjunct2, THEN conjunct2,
          THEN conjunct2, THEN conjunct2, THEN conjunct1, THEN mp, OF b, THEN conjunct1])
  have f: "spend_of no_text req_text = None"
    by (rule t3[THEN conjunct2, THEN conjunct2, THEN conjunct2, THEN conjunct2, THEN conjunct2,
          THEN conjunct2, THEN conjunct2, THEN conjunct2, THEN conjunct1, THEN mp, OF c])
  have g: "money (calculateStats no_text ([req_brl] @ req_text # [req_blank]))
       = money (calculateStats no_text ([req_brl] @ [req_blank]))"
    by (rule t3[THEN conjunct2, THEN conjunct2, THEN conjunct2, THEN conjunct2, THEN conjunct2,
          THEN conjunct2, THEN conjunct2, THEN conjunct2, THEN conjunct2, THEN mp, OF f,
          THEN conjunct2])
  show ?thesis
    by (intro conjI a[THEN conjunct1] a[THEN conjunct2] d' b[THEN conjunct1] b[THEN conjunct2]
        e c f g)
qed

section \<open>Attaching and reading an invoice\<close>

text \<open>
  Claim C8: for every request identifier, after attaching the one page \<^verbatim>\<open>aGVsbG8=\<close> with
  MIME type \<^verbatim>\<open>image/jpeg\<close> (the first write accepted), reading the invoice of that
  request returns this page sequence and this MIME type, and the attachment reports no
  error when both writes are accepted. An attachment with no page fails and leaves both
  stores as they were. More generally every invoice with at least one page, no empty
  page and a MIME type that is not empty is read back as it was attached.
\<close>

theorem C8_invoice_roundtrip:
  "getInvoice True ident
      (fst (snd (uploadAndLinkInvoice True okl keep ident (hello_invoice n) now (fs, db))))
     = Inr ([''aGVsbG8=''], ''image/jpeg'')
   \<and> fst (uploadAndLinkInvoice True True keep ident (hello_invoice n) now (fs, db)) = None
   \<and> uploadAndLinkInvoice okw okl keep ident
        \<lparr>pages = [], mimeType = m, originalName = n\<rparr> now (fs, db)
      = (Some NenhumaPaginaProcessada, fs, db)
   \<and> (pages nf \<noteq> [] \<and> [] \<notin> set (pages nf) \<and> mimeType nf \<noteq> [] \<longrightarrow>
        getInvoice True ident
          (fst (snd (uploadAndLinkInvoice True okl keep ident nf now (fs, db))))
        = Inr (pages nf, mimeType nf))"
proof (intro conjI impI)
  have "pages (hello_invoice n) \<noteq> []" "[] \<notin> set (pages (hello_invoice n))"
    "mimeType (hello_invoice n) \<noteq> []"
    by (simp_all add: hello_invoice_def)
  then have "getInvoice True ident
      (fst (snd (uploadAndLinkInvoice True okl keep ident (hello_invoice n) now (fs, db))))
     = Inr (pages (hello_invoice n), mimeType (hello_invoice n))"
    by (rule roundtrip_general)
  then show "getInvoice True ident
      (fst (snd (uploadAndLinkInvoice True okl keep ident (hello_invoice n) now (fs, db))))
     = Inr ([''aGVsbG8=''], ''image/jpeg'')"
    by (simp add: hello_invoice_def)
  show "fst (uploadAndLinkInvoice True True keep ident (hello_invoice n) now (fs, db)) = None"
    by (simp add: uploadAndLinkInvoice_def hello_invoice_def Let_def)
  show "uploadAndLinkInvoice okw okl keep ident
        \<lparr>pages = [], mimeType = m, originalName = n\<rparr> now (fs, db)
      = (Some NenhumaPaginaProcessada, fs, db)"
    by (simp add: upload_empty)
next
  assume "pages nf \<noteq> [] \<and> [] \<notin> set (pages nf) \<and> mimeType nf \<noteq> []"
  then have "pages nf \<noteq> []" "[] \<notin> set (pages nf)" "mimeType nf \<noteq> []" by simp_all
  then show "getInvoice True ident
          (fst (snd (uploadAndLinkInvoice True okl keep ident nf now (fs, db))))
        = Inr (pages nf, mimeType nf)"
    by (rule roundtrip_general)
qed

theorem C8_invoice_roundtrip_witness:
  "pages two_pages \<noteq> [] \<and> [] \<notin> set (pages two_pages) \<and> mimeType two_pages \<noteq> []
   \<and> getInvoice True ''r1''
        (fst (snd (uploadAndLinkInvoice True False True ''r1'' two_pages
                     ''2024-06-03T09:00:00.000Z'' (Map.empty, db_aprovado))))
       = Inr ([''aGVsbG8='', ''d29ybGQ=''], ''image/png'')"
proof -
  have a: "pages two_pages \<noteq> [] \<and> [] \<notin> set (pages two_pages) \<and> mimeType two_pages \<noteq> []"
    by (simp add: two_pages_def)
  have p: "pages two_pages = [''aGVsbG8='', ''d29ybGQ='']" "mimeType two_pages = ''image/png''"
    by (simp_all add: two_pages_def)
  have "getInvoice True ''r1''
        (fst (snd (uploadAndLinkInvoice True False True ''r1'' two_pages
                     ''2024-06-03T09:00:00.000Z'' (Map.empty, db_aprovado))))
       = Inr (pages two_pages, mimeType two_pages)"
    by (rule C8_invoice_roundtrip[where nf=two_pages and ident="''r1''" and okl=False
          and keep=True and now="''2024-06-03T09:00:00.000Z''" and fs=Map.empty
          and db=db_aprovado and n=None and m="[]" and okw=True,
          THEN conjunct2, THEN conjunct2, THEN conjunct2, THEN mp, OF a])
  then have b: "getInvoice True ''r1''
        (fst (snd (uploadAndLinkInvoice True False True ''r1'' two_pages
                     ''2024-06-03T09:00:00.000Z'' (Map.empty, db_aprovado))))
       = Inr ([''aGVsbG8='', ''d29ybGQ=''], ''image/png'')"
    unfolding p .
  show ?thesis
    by (intro conjI conjunct1[OF a] conjunct1[OF conjunct2[OF a]] conjunct2[OF conjunct2[OF a]] b)
qed

section \<open>When an invoice can be read\<close>

text \<open>
  Claim C10 says that reading succeeds exactly when the document has a \<^verbatim>\<open>mimeType\<close>
  string and either pages left after discarding the empty ones or a legacy
  \<^verbatim>\<open>invoiceData\<close> string. The first document below has a \<^verbatim>\<open>mimeType\<close> string, the empty
  one, and one page that is not empty, and reading it fails; the second has a MIME type
  and a legacy \<^verbatim>\<open>invoiceData\<close> string, the empty one, and reading it fails too.
\<close>

theorem C10_empty_mime_counterexample:
  "doc_empty_mime ''mimeType'' = Some (StringValue [])
   \<and> pageValues (doc_empty_mime ''pages'') = [''aGVsbG8='']
   \<and> getInvoice True ''r1'' [''r1'' \<mapsto> doc_empty_mime] = Inl FormatoInvalido
   \<and> doc_empty_legacy ''mimeType'' = Some (StringValue ''image/jpeg'')
   \<and> doc_empty_legacy ''invoiceData'' = Some (StringValue [])
   \<and> getInvoice True ''r1'' [''r1'' \<mapsto> doc_empty_legacy] = Inl NenhumaPaginaEncontrada"
  by (simp add: doc_empty_mime_def doc_empty_legacy_def getInvoice_def List.map_filter_simps)

text \<open>
  Claim C10 as amended: reading succeeds exactly when the request is answered, the
  document exists, its \<^verbatim>\<open>mimeType\<close> is a string that is not empty, and either its
  \<^verbatim>\<open>pages\<close> array has a string entry that is not empty or its legacy \<^verbatim>\<open>invoiceData\<close> is a
  string that is not empty. The pages returned are the string entries of the array that
  are not empty; when there is none, the legacy string is returned as the only page.
  A result never has an empty page list, an empty page or an empty MIME type, and a
  missing document is an error.
\<close>

theorem C10_getInvoice_cases:
  "((\<exists>r. getInvoice ok ident fs = Inr r) \<longleftrightarrow>
      ok \<and> (\<exists>doc mt. fs ident = Some doc \<and> doc ''mimeType'' = Some (StringValue mt) \<and> mt \<noteq> []
             \<and> (pageValues (doc ''pages'') \<noteq> []
                 \<or> (\<exists>d. doc ''invoiceData'' = Some (StringValue d) \<and> d \<noteq> []))))
   \<and> pageValues (Some (ArrayValue vs)) = [s. StringValue s \<leftarrow> vs, s \<noteq> []]
   \<and> pageValues None = []
   \<and> (\<forall>doc mt. fs ident = Some doc \<and> doc ''mimeType'' = Some (StringValue mt) \<and> mt \<noteq> []
         \<and> pageValues (doc ''pages'') \<noteq> [] \<longrightarrow>
         getInvoice True ident fs = Inr (pageValues (doc ''pages''), mt))
   \<and> (\<forall>doc mt d. fs ident = Some doc \<and> doc ''mimeType'' = Some (StringValue mt) \<and> mt \<noteq> []
         \<and> pageValues (doc ''pages'') = []
         \<and> doc ''invoiceData'' = Some (StringValue d) \<and> d \<noteq> [] \<longrightarrow>
         getInvoice True ident fs = Inr ([d], mt))
   \<and> (\<forall>ps mt. getInvoice ok ident fs = Inr (ps, mt) \<longrightarrow> ps \<noteq> [] \<and> [] \<notin> set ps \<and> mt \<noteq> [])
   \<and> (\<not> ok \<or> fs ident = None \<longrightarrow> getInvoice ok ident fs = Inl NotaNaoEncontrada)"
proof (intro conjI allI impI)
  show "(\<exists>r. getInvoice ok ident fs = Inr r) \<longleftrightarrow>
      ok \<and> (\<exists>doc mt. fs ident = Some doc \<and> doc ''mimeType'' = Some (StringValue mt) \<and> mt \<noteq> []
             \<and> (pageValues (doc ''pages'') \<noteq> []
                 \<or> (\<exists>d. doc ''invoiceData'' = Some (StringValue d) \<and> d \<noteq> [])))"
    by (rule getInvoice_Inr_iff)
  show "pageValues (Some (ArrayValue vs)) = [s. StringValue s \<leftarrow> vs, s \<noteq> []]"
    by (rule pageValues_filter)
  show "pageValues None = []" by simp
next
  fix doc mt
  assume "fs ident = Some doc \<and> doc ''mimeType'' = Some (StringValue mt) \<and> mt \<noteq> []
         \<and> pageValues (doc ''pages'') \<noteq> []"
  then have "fs ident = Some doc" "doc ''mimeType'' = Some (StringValue mt)" "mt \<noteq> []"
    "pageValues (doc ''pages'') \<noteq> []" by simp_all
  then show "getInvoice True ident fs = Inr (pageValues (doc ''pages''), mt)"
    by (rule getInvoice_pages)
next
  fix doc mt d
  assume "fs ident = Some doc \<and> doc ''mimeType'' = Some (StringValue mt) \<and> mt \<noteq> []
         \<and> pageValues (doc ''pages'') = []
         \<and> doc ''invoiceData'' = Some (StringValue d) \<and> d \<noteq> []"
  then have "fs ident = Some doc" "doc ''mimeType'' = Some (StringValue mt)" "mt \<noteq> []"
    "pageValues (doc ''pages'') = []" "doc ''invoiceData'' = Some (StringValue d)" "d \<noteq> []"
    by simp_all
  then show "getInvoice True ident fs = Inr ([d], mt)"
    by (rule getInvoice_legacy)
next
  fix ps mt assume g: "getInvoice ok ident fs = Inr (ps, mt)"
  from getInvoice_whole[OF g] show "ps \<noteq> []" "[] \<notin> set ps" "mt \<noteq> []" by simp_all
next
  assume "\<not> ok \<or> fs ident = None"
  then show "getInvoice ok ident fs = Inl NotaNaoEncontrada" by (rule getInvoice_not_found)
qed

theorem C10_getInvoice_cases_witness:
  "[''r1'' \<mapsto> doc_legacy] ''r1'' = Some doc_legacy
   \<and> doc_legacy ''mimeType'' = Some (StringValue ''application/pdf'')
   \<and> pageValues (doc_legacy ''pages'') = []
   \<and> doc_legacy ''invoiceData'' = Some (StringValue ''JVBERi0='')
   \<and> getInvoice True ''r1'' [''r1'' \<mapsto> doc_legacy] = Inr ([''JVBERi0=''], ''application/pdf'')
   \<and> getInvoice True ''r2'' [''r1'' \<mapsto> doc_legacy] = Inl NotaNaoEncontrada"
proof -
  let ?fs = "[''r1'' \<mapsto> doc_legacy]"
  have a: "?fs ''r1'' = Some doc_legacy" by simp
  have b: "doc_legacy ''mimeType'' = Some (StringValue ''application/pdf'')"
    "pageValues (doc_legacy ''pages'') = []"
    "doc_legacy ''invoiceData'' = Some (StringValue ''JVBERi0='')"
    by (simp_all add: doc_legacy_def)
  have h: "?fs ''r1'' = Some doc_legacy
      \<and> doc_legacy ''mimeType'' = Some (StringValue ''application/pdf'') \<and> ''application/pdf'' \<noteq> []
      \<and> pageValues (doc_legacy ''pages'') = []
      \<and> doc_legacy ''invoiceData'' = Some (StringValue ''JVBERi0='') \<and> ''JVBERi0='' \<noteq> []"
    using a b by simp
  note t = C10_getInvoice_cases[where ok=True and ident="''r1''" and fs="?fs" and vs="[]"]
  note u = C10_getInvoice_cases[where ok=True and ident="''r2''" and fs="?fs" and vs="[]"]
  have c: "getInvoice True ''r1'' ?fs = Inr ([''JVBERi0=''], ''application/pdf'')"
    by (rule t[THEN conjunct2, THEN conjunct2, THEN conjunct2, THEN conjunct2, THEN conjunct1,
          THEN spec, THEN spec, THEN spec, THEN mp, OF h])
  have n: "\<not> True \<or> ?fs ''r2'' = None" by simp
  have d: "getInvoice True ''r2'' ?fs = Inl NotaNaoEncontrada"
    by (rule u[THEN conjunct2, THEN conjunct2, THEN conjunct2, THEN conjunct2, THEN conjunct2,
          THEN conjunct2, THEN mp, OF n])
  show ?thesis by (intro conjI a b c d)
qed

end
